theory Spec2Isabelle
  imports Main "HOL-Library.Sublist" "HOL-Library.AList"
begin

section \<open>JavaScript values and strings\<close>

text \<open>
  The gateway (\<^verbatim>\<open>mcp-server/index.js\<close>) builds its replies as object literals and
  hands them to \<^verbatim>\<open>JSON.stringify\<close>. The model keeps the value that is serialised:
  an object is the list of its properties in the order the literal writes them, and a
  property whose value is \<^verbatim>\<open>undefined\<close> (which the serialiser omits) is kept with the
  value \<open>JUndefined\<close>. \<open>JSerialized v\<close> is the string \<^verbatim>\<open>JSON.stringify(v, null, 2)\<close>.
\<close>

datatype jsval =
    JUndefined
  | JNull
  | JBool bool
  | JNum int
  | JStr string
  | JSerialized jsval
  | JArr "jsval list"
  | JObj "(string \<times> jsval) list"

text \<open>A property that is either absent or a string, read as a value.\<close>

definition js_of :: "string option \<Rightarrow> jsval" where
  "js_of v = (case v of None \<Rightarrow> JUndefined | Some s \<Rightarrow> JStr s)"

text \<open>The same property inside a template literal: \<^verbatim>\<open>`${v}`\<close>.\<close>

definition template :: "string option \<Rightarrow> string" where
  "template v = (case v of None \<Rightarrow> ''undefined'' | Some s \<Rightarrow> s)"

text \<open>
  A string is the list of its code units. \<^verbatim>\<open>String.prototype.toLowerCase\<close> belongs to the
  platform; it is not a map over single units and may change the length of a string (the
  unit U+0130 becomes two units), so the model does not fix it: the tools receive it from
  the environment and nothing is assumed of it.
\<close>

text \<open>The position of the first occurrence of \<open>q\<close> in \<open>s\<close>, when there is one.\<close>

fun first_index :: "string \<Rightarrow> string \<Rightarrow> nat option" where
  "first_index [] q = (if q = [] then Some 0 else None)"
| "first_index (c # cs) q =
     (if prefix q (c # cs) then Some 0 else map_option Suc (first_index cs q))"

definition includes_str :: "string \<Rightarrow> string \<Rightarrow> bool" where
  "includes_str s q = (first_index s q \<noteq> None)"

text \<open>\<^verbatim>\<open>s.indexOf(q)\<close>: the position, or -1 when \<open>q\<close> does not occur.\<close>

definition indexOf :: "string \<Rightarrow> string \<Rightarrow> int" where
  "indexOf s q = (case first_index s q of None \<Rightarrow> - 1 | Some i \<Rightarrow> int i)"

text \<open>
  \<^verbatim>\<open>s.substring(a, b)\<close>: both arguments are clamped to \<open>0..length s\<close> and swapped
  when the first is the larger.
\<close>

definition substring :: "string \<Rightarrow> int \<Rightarrow> int \<Rightarrow> string" where
  "substring s a b =
     (let n = int (length s);
          a' = max 0 (min n a);
          b' = max 0 (min n b);
          lo = min a' b';
          hi = max a' b'
      in take (nat (hi - lo)) (drop (nat lo) s))"

section \<open>The session store\<close>

text \<open>
  \<^verbatim>\<open>const sessions = {}\<close>: a plain object whose own properties are the sessions, keyed by
  the identifiers \<^verbatim>\<open>uuidv4()\<close> returned. Such keys are never array indices, so the
  object enumerates them in insertion order, which is the order of the list. A document is
  \<^verbatim>\<open>{ id, title, text }\<close>; title and text are whatever the uploader sent, a string or
  nothing.
\<close>

record doc =
  doc_id :: string
  doc_title :: "string option"
  doc_text :: "string option"

record session =
  docs :: "doc list"
  history :: "jsval list"

type_synonym sessions = "(string \<times> session) list"

text \<open>
  \<^verbatim>\<open>sessions[key]\<close> reads an own property first and the prototype chain after it: a key
  that names a member of \<^verbatim>\<open>Object.prototype\<close> yields that member (a function, or the
  prototype itself), which is truthy and has no \<^verbatim>\<open>docs\<close>.
\<close>

definition object_prototype_names :: "string list" where
  "object_prototype_names =
     [''constructor'', ''__proto__'', ''hasOwnProperty'', ''isPrototypeOf'',
      ''propertyIsEnumerable'', ''toLocaleString'', ''toString'', ''valueOf'',
      ''__defineGetter__'', ''__defineSetter__'', ''__lookupGetter__'', ''__lookupSetter__'']"

datatype session_lookup = Absent | Inherited | Own session

definition sessions_get :: "sessions \<Rightarrow> string \<Rightarrow> session_lookup" where
  "sessions_get ss k =
     (case map_of ss k of
        Some s \<Rightarrow> Own s
      | None \<Rightarrow> if k \<in> set object_prototype_names then Inherited else Absent)"

section \<open>The tools\<close>

text \<open>
  \<^verbatim>\<open>arguments\<close> of a \<^verbatim>\<open>tools/call\<close>: every property a tool reads, each a string or absent.
  A thrown error is \<open>Inl\<close> of its message; the messages of the engine's own TypeErrors are
  those of V8.
\<close>

record args =
  arg_sessionId :: "string option"
  arg_docId :: "string option"
  arg_query :: "string option"
  arg_title :: "string option"
  arg_text :: "string option"

definition cannot_read :: "string \<Rightarrow> string" where
  "cannot_read p = ''Cannot read properties of undefined (reading '' @ [CHR 0x27] @ p @ [CHR 0x27] @ '')''"

text \<open>\<^verbatim>\<open>{ content: [{ type: 'text', text: JSON.stringify(payload, null, 2) }], isError: false }\<close>\<close>

definition text_result :: "jsval \<Rightarrow> jsval" where
  "text_result payload =
     JObj [(''content'', JArr [JObj [(''type'', JStr ''text''), (''text'', JSerialized payload)]]),
           (''isError'', JBool False)]"

definition create_session :: "string \<Rightarrow> sessions \<Rightarrow> (string + jsval) \<times> sessions" where
  "create_session sid ss =
     (Inr (text_result (JObj [(''sessionId'', JStr sid),
                              (''message'', JStr ''Session created successfully'')])),
      AList.update sid \<lparr>docs = [], history = []\<rparr> ss)"

text \<open>
  \<^verbatim>\<open>docs.map(d => ...)\<close> with a callback that may throw: the first error ends the loop.
  Reading \<^verbatim>\<open>args.p\<close> throws when \<^verbatim>\<open>args\<close> itself is undefined, and so does
  \<^verbatim>\<open>d.text.length\<close> for a document without a text.
\<close>

fun collect :: "(string + 'a) list \<Rightarrow> string + 'a list" where
  "collect [] = Inr []"
| "collect (x # xs) =
     (case x of
        Inl e \<Rightarrow> Inl e
      | Inr v \<Rightarrow> (case collect xs of Inl e \<Rightarrow> Inl e | Inr vs \<Rightarrow> Inr (v # vs)))"

definition summary :: "doc \<Rightarrow> string + jsval" where
  "summary d =
     (case doc_text d of
        None \<Rightarrow> Inl (cannot_read ''length'')
      | Some t \<Rightarrow> Inr (JObj [(''id'', JStr (doc_id d)),
                             (''title'', js_of (doc_title d)),
                             (''textLength'', JNum (int (length t)))]))"

definition list_documents :: "args option \<Rightarrow> sessions \<Rightarrow> string + jsval" where
  "list_documents a ss =
     (case a of
        None \<Rightarrow> Inl (cannot_read ''sessionId'')
      | Some r \<Rightarrow>
          (case sessions_get ss (template (arg_sessionId r)) of
             Absent \<Rightarrow> Inl (''Session not found: '' @ template (arg_sessionId r))
           | Inherited \<Rightarrow> Inl (cannot_read ''length'')
           | Own s \<Rightarrow>
               (case collect (map summary (docs s)) of
                  Inl e \<Rightarrow> Inl e
                | Inr documents \<Rightarrow> Inr (text_result (JObj
                    [(''sessionId'', js_of (arg_sessionId r)),
                     (''documentCount'', JNum (int (length (docs s)))),
                     (''documents'', JArr documents)])))))"

definition get_document :: "args option \<Rightarrow> sessions \<Rightarrow> string + jsval" where
  "get_document a ss =
     (case a of
        None \<Rightarrow> Inl (cannot_read ''sessionId'')
      | Some r \<Rightarrow>
          (case sessions_get ss (template (arg_sessionId r)) of
             Absent \<Rightarrow> Inl (''Session not found: '' @ template (arg_sessionId r))
           | Inherited \<Rightarrow> Inl (cannot_read ''length'')
           | Own s \<Rightarrow>
               (case find (\<lambda>d. Some (doc_id d) = arg_docId r) (docs s) of
                  None \<Rightarrow> Inl (''Document not found: '' @ template (arg_docId r))
                | Some d \<Rightarrow> Inr (text_result (JObj
                    [(''id'', JStr (doc_id d)),
                     (''title'', js_of (doc_title d)),
                     (''text'', js_of (doc_text d))])))))"

text \<open>
  One document of the search loop: the text is tried first, the title only when the text
  does not match; the snippet is cut around \<^verbatim>\<open>indexOf\<close> in the lowered text, also when
  only the title matched and the index is -1.
\<close>

definition snippet :: "(string \<Rightarrow> string) \<Rightarrow> string \<Rightarrow> string \<Rightarrow> string" where
  "snippet lower t searchLower =
     (let index = indexOf (lower t) searchLower
      in ''...'' @ substring t (max 0 (index - 50)) (min (int (length t)) (index + 50)) @ ''...'')"

definition search_result ::
  "(string \<Rightarrow> string) \<Rightarrow> string \<Rightarrow> doc \<Rightarrow> string \<Rightarrow> string \<Rightarrow> jsval" where
  "search_result lower sid d t searchLower =
     JObj [(''sessionId'', JStr sid), (''docId'', JStr (doc_id d)),
           (''title'', js_of (doc_title d)), (''snippet'', JStr (snippet lower t searchLower))]"

definition search_doc ::
  "(string \<Rightarrow> string) \<Rightarrow> string \<Rightarrow> string \<Rightarrow> doc \<Rightarrow> string + jsval list" where
  "search_doc lower searchLower sid d =
     (case doc_text d of
        None \<Rightarrow> Inl (cannot_read ''toLowerCase'')
      | Some t \<Rightarrow>
          if includes_str (lower t) searchLower
          then Inr [search_result lower sid d t searchLower]
          else (case doc_title d of
                  None \<Rightarrow> Inl (cannot_read ''toLowerCase'')
                | Some ti \<Rightarrow>
                    if includes_str (lower ti) searchLower
                    then Inr [search_result lower sid d t searchLower] else Inr []))"

fun search_docs ::
  "(string \<Rightarrow> string) \<Rightarrow> string \<Rightarrow> string \<Rightarrow> doc list \<Rightarrow> string + jsval list" where
  "search_docs lower searchLower sid [] = Inr []"
| "search_docs lower searchLower sid (d # ds) =
     (case search_doc lower searchLower sid d of
        Inl e \<Rightarrow> Inl e
      | Inr r \<Rightarrow>
          (case search_docs lower searchLower sid ds of
             Inl e \<Rightarrow> Inl e
           | Inr rs \<Rightarrow> Inr (r @ rs)))"

text \<open>The outer loop over \<^verbatim>\<open>Object.entries(sessionsToSearch)\<close>, skipping falsy entries.\<close>

fun search_sessions ::
  "(string \<Rightarrow> string) \<Rightarrow> string \<Rightarrow> (string \<times> session_lookup) list \<Rightarrow> string + jsval list" where
  "search_sessions lower searchLower [] = Inr []"
| "search_sessions lower searchLower ((sid, l) # es) =
     (case (case l of
              Absent \<Rightarrow> Inr []
            | Inherited \<Rightarrow> Inl ''session.docs is not iterable''
            | Own s \<Rightarrow> search_docs lower searchLower sid (docs s)) of
        Inl e \<Rightarrow> Inl e
      | Inr r \<Rightarrow>
          (case search_sessions lower searchLower es of
             Inl e \<Rightarrow> Inl e
           | Inr rs \<Rightarrow> Inr (r @ rs)))"

text \<open>
  \<^verbatim>\<open>args.sessionId ? { [args.sessionId]: sessions[args.sessionId] } : sessions\<close>: an absent
  or empty \<^verbatim>\<open>sessionId\<close> is falsy and selects every session.
\<close>

definition sessionsToSearch :: "string option \<Rightarrow> sessions \<Rightarrow> (string \<times> session_lookup) list" where
  "sessionsToSearch sid ss =
     (case sid of
        Some k \<Rightarrow> if k \<noteq> [] then [(k, sessions_get ss k)] else map (\<lambda>(k', s). (k', Own s)) ss
      | None \<Rightarrow> map (\<lambda>(k', s). (k', Own s)) ss)"

definition search_documents ::
  "(string \<Rightarrow> string) \<Rightarrow> args option \<Rightarrow> sessions \<Rightarrow> string + jsval" where
  "search_documents lower a ss =
     (case a of
        None \<Rightarrow> Inl (cannot_read ''query'')
      | Some r \<Rightarrow>
          (case arg_query r of
             None \<Rightarrow> Inl (cannot_read ''toLowerCase'')
           | Some q \<Rightarrow>
               (case search_sessions lower (lower q) (sessionsToSearch (arg_sessionId r) ss) of
                  Inl e \<Rightarrow> Inl e
                | Inr results \<Rightarrow> Inr (text_result (JObj
                    [(''query'', JStr q),
                     (''resultCount'', JNum (int (length results))),
                     (''results'', JArr results)])))))"

definition upload_document :: "args option \<Rightarrow> string \<Rightarrow> sessions \<Rightarrow> (string + jsval) \<times> sessions" where
  "upload_document a docId ss =
     (case a of
        None \<Rightarrow> (Inl (cannot_read ''sessionId''), ss)
      | Some r \<Rightarrow>
          (case sessions_get ss (template (arg_sessionId r)) of
             Absent \<Rightarrow> (Inl ''Session not found'', ss)
           | Inherited \<Rightarrow> (Inl (cannot_read ''push''), ss)
           | Own s \<Rightarrow>
               (Inr (text_result (JObj
                  [(''success'', JBool True), (''docId'', JStr docId),
                   (''title'', js_of (arg_title r)), (''sessionId'', js_of (arg_sessionId r))])),
                AList.update (template (arg_sessionId r))
                  (s\<lparr>docs := docs s @ [\<lparr>doc_id = docId, doc_title = arg_title r,
                                         doc_text = arg_text r\<rparr>]\<rparr>) ss)))"

text \<open>
  What a request draws from outside the handler: the value that \<^verbatim>\<open>uuidv4()\<close> returns if
  the request asks for an identifier, whether \<^verbatim>\<open>createMCPServer\<close> (module
  \<^verbatim>\<open>./mcp-handler\<close>, whose source is not part of the model) returns or throws, and the
  platform's \<^verbatim>\<open>toLowerCase\<close>.
\<close>

record env =
  uuid :: string
  createMCPServer_error :: "string option"
  toLowerCase :: "string \<Rightarrow> string"

text \<open>The \<^verbatim>\<open>switch (name)\<close> of the \<^verbatim>\<open>tools/call\<close> branch.\<close>

definition execute_tool ::
  "env \<Rightarrow> string option \<Rightarrow> args option \<Rightarrow> sessions \<Rightarrow> (string + jsval) \<times> sessions" where
  "execute_tool e name a ss =
     (if name = Some ''create_session'' then create_session (uuid e) ss
      else if name = Some ''list_documents'' then (list_documents a ss, ss)
      else if name = Some ''get_document'' then (get_document a ss, ss)
      else if name = Some ''search_documents'' then (search_documents (toLowerCase e) a ss, ss)
      else if name = Some ''upload_document'' then upload_document a (uuid e) ss
      else (Inl (''Unknown tool: '' @ template name), ss))"

section \<open>Streams, the connection registry and the timers\<close>

text \<open>
  Each \<^verbatim>\<open>GET /mcp/sse\<close> owns one response object \<^verbatim>\<open>res\<close>; the registry entry, the
  keep-alive closure and the close and error listeners all hold the same object, so the
  model keeps the response objects in a store addressed by a handle. Of a response the
  model records the frames written, how many times \<^verbatim>\<open>write\<close> was called, the flag
  \<^verbatim>\<open>writableEnded\<close>, and whether the transport rejects a write (\<^verbatim>\<open>write\<close> throws an
  error with that message).
\<close>

datatype sse_frame =
    Endpoint_event string
  | Message_event jsval
  | Keep_alive_comment

record stream =
  frames :: "sse_frame list"
  attempts :: nat
  writableEnded :: bool
  write_error :: "string option"

text \<open>
  \<open>mcpConnections\<close> is the \<^verbatim>\<open>Map\<close> from connection id to \<^verbatim>\<open>{ server, res }\<close> (no
  handler reads \<^verbatim>\<open>server\<close>), \<open>intervals\<close> the keep-alive timers that are still
  scheduled, named by the response they write to, and \<open>listeners\<close> the connection id
  that the close and error listeners of a response have captured.
\<close>

record server =
  mcpConnections :: "(string \<times> nat) list"
  sessions :: sessions
  streams :: "nat \<Rightarrow> stream"
  intervals :: "nat set"
  listeners :: "nat \<Rightarrow> string option"

definition res_write :: "nat \<Rightarrow> sse_frame \<Rightarrow> server \<Rightarrow> string option \<times> server" where
  "res_write h f st =
     (let s = (streams st h)\<lparr>attempts := attempts (streams st h) + 1\<rparr>
      in case write_error s of
           Some e \<Rightarrow> (Some e, st\<lparr>streams := (streams st)(h := s)\<rparr>)
         | None \<Rightarrow> (None, st\<lparr>streams := (streams st)(h := s\<lparr>frames := frames s @ [f]\<rparr>)\<rparr>))"

text \<open>The body of the \<^verbatim>\<open>setInterval\<close> callback, and the timer firing it while scheduled.\<close>

definition keepAlive :: "nat \<Rightarrow> server \<Rightarrow> server" where
  "keepAlive h st =
     (case res_write h Keep_alive_comment st of
        (None, st') \<Rightarrow> st'
      | (Some e, st') \<Rightarrow> st'\<lparr>intervals := intervals st' - {h}\<rparr>)"

definition timer_fire :: "nat \<Rightarrow> server \<Rightarrow> server" where
  "timer_fire h st = (if h \<in> intervals st then keepAlive h st else st)"

text \<open>
  \<^verbatim>\<open>app.get('/mcp/sse')\<close> for the response \<open>h\<close>. When the first write or
  \<^verbatim>\<open>createMCPServer\<close> throws, the catch clears the timer and nothing is registered.
\<close>

definition mcp_sse :: "env \<Rightarrow> nat \<Rightarrow> server \<Rightarrow> server" where
  "mcp_sse e h st =
     (let connectionId = uuid e;
          st1 = st\<lparr>intervals := insert h (intervals st)\<rparr>;
          endpoint = ''/mcp/message?sessionId='' @ connectionId
      in case res_write h (Endpoint_event endpoint) st1 of
           (Some err, st2) \<Rightarrow> st2\<lparr>intervals := intervals st2 - {h}\<rparr>
         | (None, st2) \<Rightarrow>
             (case createMCPServer_error e of
                Some err \<Rightarrow> st2\<lparr>intervals := intervals st2 - {h}\<rparr>
              | None \<Rightarrow>
                  st2\<lparr>mcpConnections := AList.update connectionId h (mcpConnections st2),
                      listeners := (listeners st2)(h \<mapsto> connectionId)\<rparr>))"

text \<open>The \<^verbatim>\<open>'close'\<close> and \<^verbatim>\<open>'error'\<close> listeners of the response \<open>h\<close>, if it has them.\<close>

definition on_close :: "nat \<Rightarrow> server \<Rightarrow> server" where
  "on_close h st =
     (case listeners st h of
        None \<Rightarrow> st
      | Some connectionId \<Rightarrow>
          st\<lparr>intervals := intervals st - {h},
             mcpConnections := AList.delete connectionId (mcpConnections st)\<rparr>)"

definition on_error :: "nat \<Rightarrow> server \<Rightarrow> server" where
  "on_error h st =
     (case listeners st h of
        None \<Rightarrow> st
      | Some connectionId \<Rightarrow>
          st\<lparr>intervals := intervals st - {h},
             mcpConnections := AList.delete connectionId (mcpConnections st)\<rparr>)"

section \<open>The message endpoint\<close>

record params =
  name :: "string option"
  arguments :: "args option"

record message =
  jsonrpc :: "string option"
  msg_id :: jsval
  msg_method :: "string option"
  params :: "params option"

record request =
  query_sessionId :: "string option"
  headers :: "(string \<times> string) list"
  body :: message

datatype http_body = Json jsval | Empty | Event_stream "sse_frame list"

datatype http_response = Response nat http_body

text \<open>\<^verbatim>\<open>mcpConnections.get(connectionId)\<close>; no key is \<^verbatim>\<open>undefined\<close>.\<close>

definition get_connection :: "server \<Rightarrow> string option \<Rightarrow> nat option" where
  "get_connection st connectionId =
     (case connectionId of None \<Rightarrow> None | Some c \<Rightarrow> map_of (mcpConnections st) c)"

definition acceptHeader :: "request \<Rightarrow> string" where
  "acceptHeader req = (case map_of (headers req) ''accept'' of None \<Rightarrow> [] | Some a \<Rightarrow> a)"

definition wantsSSE :: "request \<Rightarrow> bool" where
  "wantsSSE req = includes_str (acceptHeader req) ''text/event-stream''"

definition debugInfo :: "server \<Rightarrow> request \<Rightarrow> jsval" where
  "debugInfo st req =
     JObj [(''requestedId'', js_of (query_sessionId req)),
           (''totalConnections'', JNum (int (length (mcpConnections st)))),
           (''availableIds'', JArr (map (\<lambda>(c, h). JStr c) (mcpConnections st))),
           (''message'', js_of (msg_method (body req))),
           (''accept'', JStr (acceptHeader req)),
           (''allHeaders'', JObj (map (\<lambda>(k, v). (k, JStr v)) (headers req)))]"

definition rpc_result :: "jsval \<Rightarrow> jsval \<Rightarrow> jsval" where
  "rpc_result r i = JObj [(''jsonrpc'', JStr ''2.0''), (''result'', r), (''id'', i)]"

definition rpc_error :: "int \<Rightarrow> string \<Rightarrow> jsval \<Rightarrow> jsval" where
  "rpc_error c m i =
     JObj [(''jsonrpc'', JStr ''2.0''),
           (''error'', JObj [(''code'', JNum c), (''message'', JStr m)]),
           (''id'', i)]"

definition connection_not_found :: "server \<Rightarrow> request \<Rightarrow> jsval" where
  "connection_not_found st req =
     JObj [(''jsonrpc'', JStr ''2.0''),
           (''error'', JObj [(''code'', JNum (- 32001)),
                             (''message'', JStr ''Connection not found''),
                             (''debug'', debugInfo st req)]),
           (''id'', msg_id (body req))]"

definition initialize_result :: jsval where
  "initialize_result =
     JObj [(''protocolVersion'', JStr ''2024-11-05''),
           (''capabilities'', JObj [(''tools'', JObj []), (''resources'', JObj [])]),
           (''serverInfo'', JObj [(''name'', JStr ''ai-foundry-mcp-gateway''),
                                  (''version'', JStr ''1.0.0'')])]"

definition tool_entry :: "string \<Rightarrow> string \<Rightarrow> string list \<Rightarrow> string list \<Rightarrow> jsval" where
  "tool_entry n d props req =
     JObj [(''name'', JStr n), (''description'', JStr d),
           (''inputSchema'',
              JObj [(''type'', JStr ''object''),
                    (''properties'', JObj (map (\<lambda>p. (p, JObj [(''type'', JStr ''string'')])) props)),
                    (''required'', JArr (map JStr req))])]"

definition tools :: jsval where
  "tools = JArr
     [tool_entry ''create_session'' ''Create a new document session'' [] [],
      tool_entry ''list_documents'' ''List all documents in a session''
        [''sessionId''] [''sessionId''],
      tool_entry ''get_document'' ''Get document content''
        [''sessionId'', ''docId''] [''sessionId'', ''docId''],
      tool_entry ''search_documents'' ''Search documents''
        [''query'', ''sessionId''] [''query''],
      tool_entry ''upload_document'' ''Upload document''
        [''sessionId'', ''title'', ''text''] [''sessionId'', ''title'', ''text'']]"

text \<open>
  The delivery shared by \<^verbatim>\<open>initialize\<close> and \<^verbatim>\<open>tools/list\<close>: the write on the
  connection's stream is not guarded, so an error it throws leaves the handler's
  \<^verbatim>\<open>try\<close> (\<open>Inl\<close>).
\<close>

definition push_and_reply ::
  "bool \<Rightarrow> nat \<Rightarrow> jsval \<Rightarrow> server \<Rightarrow> (string + http_response) \<times> server" where
  "push_and_reply sse h response st =
     (case res_write h (Message_event response) st of
        (Some err, st') \<Rightarrow> (Inl err, st')
      | (None, st') \<Rightarrow>
          (Inr (if sse then Response 202 Empty else Response 200 (Json response)), st'))"

definition tool_error_result :: "string \<Rightarrow> jsval" where
  "tool_error_result msg =
     JObj [(''content'', JArr [JObj [(''type'', JStr ''text''),
                                      (''text'', JStr (''Tool execution failed: '' @ msg))]]),
           (''isError'', JBool True)]"

text \<open>
  The \<^verbatim>\<open>tools/call\<close> branch once \<^verbatim>\<open>message.params\<close> has been destructured: the tool runs,
  a result goes to the connection's stream if the registry still has it and it has not
  ended, a thrown error is answered on the POST itself.
\<close>

definition tools_call ::
  "env \<Rightarrow> request \<Rightarrow> params \<Rightarrow> server \<Rightarrow> http_response \<times> server" where
  "tools_call e req p st =
     (case execute_tool e (name p) (arguments p) (sessions st) of
        (Inr result, ss') \<Rightarrow>
          (let st1 = st\<lparr>sessions := ss'\<rparr>;
               response = rpc_result result (msg_id (body req))
           in case get_connection st1 (query_sessionId req) of
                Some h \<Rightarrow>
                  if \<not> writableEnded (streams st1 h) then
                    (case res_write h (Message_event response) st1 of
                       (None, st2) \<Rightarrow>
                         (Response 200 (Json (JObj [(''acknowledged'', JBool True)])), st2)
                     | (Some sseError, st2) \<Rightarrow> (Response 200 (Json response), st2))
                  else (Response 200 (Json response), st1)
              | None \<Rightarrow> (Response 200 (Json response), st1))
      | (Inl toolError, ss') \<Rightarrow>
          (let errorResponse = rpc_result (tool_error_result toolError) (msg_id (body req))
           in if wantsSSE req
              then (Response 200 (Event_stream [Message_event errorResponse]), st\<lparr>sessions := ss'\<rparr>)
              else (Response 200 (Json errorResponse), st\<lparr>sessions := ss'\<rparr>)))"

definition method_not_found ::
  "request \<Rightarrow> nat \<Rightarrow> server \<Rightarrow> (string + http_response) \<times> server" where
  "method_not_found req h st =
     (let errorResponse =
            rpc_error (- 32601) (''Method not found: '' @ template (msg_method (body req)))
              (msg_id (body req))
      in if wantsSSE req
         then (Inr (Response 200 (Event_stream [Message_event errorResponse])), st)
         else (case res_write h (Message_event errorResponse) st of
                 (Some err, st') \<Rightarrow> (Inl err, st')
               | (None, st') \<Rightarrow> (Inr (Response 200 (Json (JObj [(''received'', JBool True)]))), st')))"

text \<open>The body of the handler's outer \<^verbatim>\<open>try\<close>, for the connection \<open>h\<close> that was found.\<close>

definition handle_message ::
  "env \<Rightarrow> request \<Rightarrow> nat \<Rightarrow> server \<Rightarrow> (string + http_response) \<times> server" where
  "handle_message e req h st =
     (let message = body req
      in if msg_method message = Some ''initialize'' then
           push_and_reply (wantsSSE req) h (rpc_result initialize_result (msg_id message)) st
         else if msg_method message = Some ''tools/list'' then
           (case createMCPServer_error e of
              Some err \<Rightarrow> (Inl err, st)
            | None \<Rightarrow>
                push_and_reply (wantsSSE req) h
                  (rpc_result (JObj [(''tools'', tools)]) (msg_id message)) st)
         else if msg_method message = Some ''tools/call'' then
           (case params message of
              None \<Rightarrow>
                (Inl (''Cannot destructure property '' @ [CHR 0x27] @ ''name'' @ [CHR 0x27]
                      @ '' of '' @ [CHR 0x27] @ ''message.params'' @ [CHR 0x27]
                      @ '' as it is undefined.''), st)
            | Some p \<Rightarrow> (case tools_call e req p st of (r, st') \<Rightarrow> (Inr r, st')))
         else method_not_found req h st)"

text \<open>\<^verbatim>\<open>app.post('/mcp/message')\<close>.\<close>

definition post_message :: "env \<Rightarrow> request \<Rightarrow> server \<Rightarrow> http_response \<times> server" where
  "post_message e req st =
     (case get_connection st (query_sessionId req) of
        None \<Rightarrow> (Response 404 (Json (connection_not_found st req)), st)
      | Some h \<Rightarrow>
          (case handle_message e req h st of
             (Inr r, st') \<Rightarrow> (r, st')
           | (Inl err, st') \<Rightarrow>
               (Response 500 (Json (rpc_error (- 32603) err (msg_id (body req)))), st')))"

text \<open>What happens to the server, one event at a time.\<close>

datatype event =
    Sse_open env nat
  | Close nat
  | Error nat
  | Timer nat
  | Post env request

fun step :: "server \<Rightarrow> event \<Rightarrow> server" where
  "step st (Sse_open e h) = mcp_sse e h st"
| "step st (Close h) = on_close h st"
| "step st (Error h) = on_error h st"
| "step st (Timer h) = timer_fire h st"
| "step st (Post e req) = snd (post_message e req st)"

definition run :: "server \<Rightarrow> event list \<Rightarrow> server" where
  "run st evs = foldl step st evs"

section \<open>Reading replies\<close>

text \<open>\<^verbatim>\<open>v.k\<close> on a reply, and the JSON-RPC envelope that a POST response carries.\<close>

fun field :: "string \<Rightarrow> jsval \<Rightarrow> jsval" where
  "field k (JObj ps) = (case map_of ps k of Some v \<Rightarrow> v | None \<Rightarrow> JUndefined)"
| "field k v = JUndefined"

fun envelope :: "http_response \<Rightarrow> jsval" where
  "envelope (Response c (Json v)) = v"
| "envelope (Response c (Event_stream [Message_event v])) = v"
| "envelope r = JUndefined"

section \<open>Sample states and requests\<close>

definition stream0 :: stream where
  "stream0 = \<lparr>frames = [], attempts = 0, writableEnded = False, write_error = None\<rparr>"

definition server0 :: server where
  "server0 = \<lparr>mcpConnections = [], sessions = [], streams = (\<lambda>h. stream0),
              intervals = {}, listeners = (\<lambda>h. None)\<rparr>"

text \<open>
  The lower-casing of the sample environments maps A-Z and the accented capitals 0xC0-0xDE
  (the multiplication sign 0xD7 apart) to the unit 32 above; on strings of code units below
  256, which are all that the samples use, this is what the platform does.
\<close>

definition toLowerCase_latin1_unit :: "char \<Rightarrow> char" where
  "toLowerCase_latin1_unit c =
     (let n = (of_char c :: nat)
      in if (65 \<le> n \<and> n \<le> 90) \<or> (192 \<le> n \<and> n \<le> 222 \<and> n \<noteq> 215)
         then char_of (n + 32) else c)"

definition toLowerCase_latin1 :: "string \<Rightarrow> string" where
  "toLowerCase_latin1 s = map toLowerCase_latin1_unit s"

definition env0 :: env where
  "env0 = \<lparr>uuid = ''c-1'', createMCPServer_error = None, toLowerCase = toLowerCase_latin1\<rparr>"

definition post_to :: "string \<Rightarrow> string \<Rightarrow> message \<Rightarrow> request" where
  "post_to c accept m =
     \<lparr>query_sessionId = Some c,
      headers = (if accept = [] then [] else [(''accept'', accept)]),
      body = m\<rparr>"

definition initialize_1 :: message where
  "initialize_1 = \<lparr>jsonrpc = Some ''2.0'', msg_id = JNum 1, msg_method = Some ''initialize'',
                   params = None\<rparr>"

definition tool_names :: "string list" where
  "tool_names = [''create_session'', ''list_documents'', ''get_document'',
                 ''search_documents'', ''upload_document'']"

definition no_args :: args where
  "no_args = \<lparr>arg_sessionId = None, arg_docId = None, arg_query = None, arg_title = None,
              arg_text = None\<rparr>"

definition tools_call_1 :: "string \<Rightarrow> args \<Rightarrow> message" where
  "tools_call_1 n a = \<lparr>jsonrpc = Some ''2.0'', msg_id = JNum 1, msg_method = Some ''tools/call'',
                       params = Some \<lparr>name = Some n, arguments = Some a\<rparr>\<rparr>"

definition live0 :: server where
  "live0 = mcp_sse env0 0 server0"

definition env1 :: env where
  "env1 = \<lparr>uuid = ''s-1'', createMCPServer_error = None, toLowerCase = toLowerCase_latin1\<rparr>"

definition failing :: "server \<Rightarrow> nat \<Rightarrow> string \<Rightarrow> server" where
  "failing st h msg = st\<lparr>streams := (streams st)(h := (streams st h)\<lparr>write_error := Some msg\<rparr>)\<rparr>"

definition ended :: "server \<Rightarrow> nat \<Rightarrow> server" where
  "ended st h = st\<lparr>streams := (streams st)(h := (streams st h)\<lparr>writableEnded := True\<rparr>)\<rparr>"

definition bare_1 :: "string option \<Rightarrow> jsval \<Rightarrow> string option \<Rightarrow> message" where
  "bare_1 v i m = \<lparr>jsonrpc = v, msg_id = i, msg_method = m, params = None\<rparr>"







definition search_args :: "string option \<Rightarrow> string \<Rightarrow> args" where
  "search_args sid q = no_args\<lparr>arg_sessionId := sid, arg_query := Some q\<rparr>"

definition hello_store :: sessions where
  "hello_store =
     snd (upload_document
            (Some (no_args\<lparr>arg_sessionId := Some ''s-1'', arg_title := Some ''greeting'',
                           arg_text := Some ''hello world''\<rparr>))
            ''d-1'' (snd (create_session ''s-1'' [])))"

definition digits60 :: string where
  "digits60 = concat (replicate 6 ''0123456789'')"


text \<open>The responses that a run opens; a server that has not yet seen a connection.\<close>

fun opens :: "event list \<Rightarrow> nat list" where
  "opens [] = []"
| "opens (Sse_open e h # evs) = h # opens evs"
| "opens (ev # evs) = opens evs"

definition initial :: "server \<Rightarrow> bool" where
  "initial st = (mcpConnections st = [] \<and> intervals st = {} \<and> listeners st = (\<lambda>h. None))"

text \<open>
  Every registered response has listeners that hold its key, every scheduled timer belongs
  to a response with listeners, and only opened responses have listeners.
\<close>

definition consistent :: "server \<Rightarrow> nat set \<Rightarrow> bool" where
  "consistent st H =
     ((\<forall>c h. map_of (mcpConnections st) c = Some h \<longrightarrow> listeners st h = Some c)
      \<and> (\<forall>h \<in> intervals st. listeners st h \<noteq> None)
      \<and> (\<forall>h. listeners st h \<noteq> None \<longrightarrow> h \<in> H))"

definition dead :: "server \<Rightarrow> nat \<Rightarrow> bool" where
  "dead st h = (h \<notin> intervals st \<and> (\<forall>c. map_of (mcpConnections st) c \<noteq> Some h))"

section \<open>Properties\<close>

lemmas post_defs = post_message_def handle_message_def push_and_reply_def tools_call_def
  method_not_found_def res_write_def rpc_error_def rpc_result_def connection_not_found_def

lemma found_code:
  assumes "get_connection st (query_sessionId req) = Some h"
  shows "field ''code'' (field ''error'' (envelope (fst (post_message e req st))))
           \<in> {JUndefined, JNum (- 32601), JNum (- 32603)}"
  using assms
  by (auto simp: post_defs Let_def tool_error_result_def
           split: option.splits sum.splits prod.splits if_splits)

text \<open>
  C1. A POST whose \<^verbatim>\<open>sessionId\<close> names no registered connection is answered with status
  404 and a JSON-RPC error of code -32001 that echoes the body's id; the server's state is
  left as it was, so no method handler ran. No reply to a POST on a registered connection
  carries the code -32001.
\<close>

theorem connection_not_found_404:
  assumes "get_connection st (query_sessionId req) = None"
  shows "post_message e req st =
     (Response 404 (Json (JObj
        [(''jsonrpc'', JStr ''2.0''),
         (''error'', JObj [(''code'', JNum (- 32001)),
                           (''message'', JStr ''Connection not found''),
                           (''debug'', debugInfo st req)]),
         (''id'', msg_id (body req))])), st)
     \<and> (\<forall>e' req' st'. get_connection st' (query_sessionId req') \<noteq> None \<longrightarrow>
           field ''code'' (field ''error'' (envelope (fst (post_message e' req' st'))))
             \<noteq> JNum (- 32001))"
proof
  show "post_message e req st =
     (Response 404 (Json (JObj
        [(''jsonrpc'', JStr ''2.0''),
         (''error'', JObj [(''code'', JNum (- 32001)),
                           (''message'', JStr ''Connection not found''),
                           (''debug'', debugInfo st req)]),
         (''id'', msg_id (body req))])), st)"
    using assms by (simp add: post_message_def connection_not_found_def)
next
  show "\<forall>e' req' st'. get_connection st' (query_sessionId req') \<noteq> None \<longrightarrow>
           field ''code'' (field ''error'' (envelope (fst (post_message e' req' st'))))
             \<noteq> JNum (- 32001)"
  proof (intro allI impI)
    fix e' :: env and req' :: request and st' :: server
    assume "get_connection st' (query_sessionId req') \<noteq> None"
    then obtain h where "get_connection st' (query_sessionId req') = Some h" by auto
    from found_code[OF this, of e']
    show "field ''code'' (field ''error'' (envelope (fst (post_message e' req' st'))))
            \<noteq> JNum (- 32001)"
      by auto
  qed
qed

theorem connection_not_found_404_witness:
  "get_connection server0 (query_sessionId (post_to ''nonexistent'' [] initialize_1)) = None
   \<and> post_message env0 (post_to ''nonexistent'' [] initialize_1) server0 =
     (Response 404 (Json (JObj
        [(''jsonrpc'', JStr ''2.0''),
         (''error'', JObj [(''code'', JNum (- 32001)),
                           (''message'', JStr ''Connection not found''),
                           (''debug'', JObj [(''requestedId'', JStr ''nonexistent''),
                                             (''totalConnections'', JNum 0),
                                             (''availableIds'', JArr []),
                                             (''message'', JStr ''initialize''),
                                             (''accept'', JStr []),
                                             (''allHeaders'', JObj [])])]),
         (''id'', JNum 1)])), server0)"
proof -
  have none: "get_connection server0 (query_sessionId (post_to ''nonexistent'' [] initialize_1)) = None"
    by (simp add: get_connection_def server0_def post_to_def)
  have dbg: "debugInfo server0 (post_to ''nonexistent'' [] initialize_1) =
      JObj [(''requestedId'', JStr ''nonexistent''), (''totalConnections'', JNum 0),
            (''availableIds'', JArr []), (''message'', JStr ''initialize''),
            (''accept'', JStr []), (''allHeaders'', JObj [])]"
    by (simp add: debugInfo_def server0_def post_to_def initialize_1_def js_of_def acceptHeader_def)
  show ?thesis
    using none dbg connection_not_found_404[OF none, of env0]
    by (simp add: post_to_def initialize_1_def)
qed

lemma live0_eq:
  "live0 = \<lparr>mcpConnections = [(''c-1'', 0)], sessions = [],
            streams = (\<lambda>h. stream0)(0 := \<lparr>frames = [Endpoint_event ''/mcp/message?sessionId=c-1''],
                                          attempts = 1, writableEnded = False, write_error = None\<rparr>),
            intervals = {0}, listeners = [0 \<mapsto> ''c-1'']\<rparr>"
  by (simp add: live0_def mcp_sse_def env0_def server0_def res_write_def stream0_def Let_def)

lemma tools_call_failure:
  assumes "fst (execute_tool e (name p) (arguments p) (sessions st)) = Inl msg"
  shows "envelope (fst (tools_call e req p st)) = rpc_result (tool_error_result msg) (msg_id (body req))"
  using assms by (cases "execute_tool e (name p) (arguments p) (sessions st)")
    (simp add: tools_call_def Let_def)

lemma post_tools_call:
  assumes "get_connection st (query_sessionId req) = Some h"
      and "msg_method (body req) = Some ''tools/call''"
      and "params (body req) = Some p"
  shows "post_message e req st = tools_call e req p st"
  using assms by (simp add: post_message_def handle_message_def Let_def split: prod.splits)

lemma unknown_tool_fails:
  assumes "n \<notin> set tool_names"
  shows "execute_tool e (Some n) a ss = (Inl (''Unknown tool: '' @ n), ss)"
  using assms by (simp add: execute_tool_def tool_names_def template_def)

text \<open>
  C2. On a registered connection a \<^verbatim>\<open>tools/call\<close> whose tool throws is answered with a
  JSON-RPC result (there is no \<^verbatim>\<open>error\<close> property) whose \<^verbatim>\<open>isError\<close> is true and whose
  text is the failure message. An unknown tool name, a session that does not exist and a
  document that does not exist are such failures, and the message for an unknown tool
  ends with its name.
\<close>

theorem tool_failure_is_result:
  assumes conn: "get_connection st (query_sessionId req) = Some h"
      and call: "msg_method (body req) = Some ''tools/call''"
      and par: "params (body req) = Some p"
  shows "(\<forall>msg. fst (execute_tool e (name p) (arguments p) (sessions st)) = Inl msg \<longrightarrow>
            envelope (fst (post_message e req st)) =
              JObj [(''jsonrpc'', JStr ''2.0''),
                    (''result'', JObj [(''content'', JArr [JObj [(''type'', JStr ''text''),
                                          (''text'', JStr (''Tool execution failed: '' @ msg))]]),
                                       (''isError'', JBool True)]),
                    (''id'', msg_id (body req))])
       \<and> (\<forall>n. name p = Some n \<and> n \<notin> set tool_names \<longrightarrow>
            fst (execute_tool e (name p) (arguments p) (sessions st)) =
              Inl (''Unknown tool: '' @ n))
       \<and> (\<forall>a. arguments p = Some a
              \<and> sessions_get (sessions st) (template (arg_sessionId a)) = Absent \<longrightarrow>
            (name p = Some ''list_documents'' \<or> name p = Some ''get_document'' \<longrightarrow>
               fst (execute_tool e (name p) (arguments p) (sessions st)) =
                 Inl (''Session not found: '' @ template (arg_sessionId a)))
            \<and> (name p = Some ''upload_document'' \<longrightarrow>
               fst (execute_tool e (name p) (arguments p) (sessions st)) =
                 Inl ''Session not found''))
       \<and> (\<forall>a s. arguments p = Some a \<and> name p = Some ''get_document''
              \<and> sessions_get (sessions st) (template (arg_sessionId a)) = Own s
              \<and> find (\<lambda>d. Some (doc_id d) = arg_docId a) (docs s) = None \<longrightarrow>
            fst (execute_tool e (name p) (arguments p) (sessions st)) =
              Inl (''Document not found: '' @ template (arg_docId a)))"
proof (intro conjI allI impI)
  fix msg
  assume "fst (execute_tool e (name p) (arguments p) (sessions st)) = Inl msg"
  from tools_call_failure[OF this, of req] post_tools_call[OF conn call par, of e]
  show "envelope (fst (post_message e req st)) =
              JObj [(''jsonrpc'', JStr ''2.0''),
                    (''result'', JObj [(''content'', JArr [JObj [(''type'', JStr ''text''),
                                          (''text'', JStr (''Tool execution failed: '' @ msg))]]),
                                       (''isError'', JBool True)]),
                    (''id'', msg_id (body req))]"
    by (simp add: rpc_result_def tool_error_result_def)
next
  fix n
  assume "name p = Some n \<and> n \<notin> set tool_names"
  then show "fst (execute_tool e (name p) (arguments p) (sessions st)) =
              Inl (''Unknown tool: '' @ n)"
    by (simp add: unknown_tool_fails)
next
  fix a
  assume a: "arguments p = Some a \<and> sessions_get (sessions st) (template (arg_sessionId a)) = Absent"
     and n: "name p = Some ''list_documents'' \<or> name p = Some ''get_document''"
  from n show "fst (execute_tool e (name p) (arguments p) (sessions st)) =
                 Inl (''Session not found: '' @ template (arg_sessionId a))"
    using a by (auto simp: execute_tool_def list_documents_def get_document_def)
next
  fix a
  assume a: "arguments p = Some a \<and> sessions_get (sessions st) (template (arg_sessionId a)) = Absent"
     and n: "name p = Some ''upload_document''"
  then show "fst (execute_tool e (name p) (arguments p) (sessions st)) =
                 Inl ''Session not found''"
    by (simp add: execute_tool_def upload_document_def)
next
  fix a s
  assume "arguments p = Some a \<and> name p = Some ''get_document''
              \<and> sessions_get (sessions st) (template (arg_sessionId a)) = Own s
              \<and> find (\<lambda>d. Some (doc_id d) = arg_docId a) (docs s) = None"
  then show "fst (execute_tool e (name p) (arguments p) (sessions st)) =
              Inl (''Document not found: '' @ template (arg_docId a))"
    by (simp add: execute_tool_def get_document_def)
qed

theorem tool_failure_is_result_witness:
  "get_connection live0 (query_sessionId (post_to ''c-1'' [] (tools_call_1 ''unknown_tool'' no_args))) = Some 0
   \<and> ''unknown_tool'' \<notin> set tool_names
   \<and> envelope (fst (post_message env0 (post_to ''c-1'' [] (tools_call_1 ''unknown_tool'' no_args)) live0)) =
       JObj [(''jsonrpc'', JStr ''2.0''),
             (''result'', JObj [(''content'', JArr [JObj [(''type'', JStr ''text''),
                  (''text'', JStr ''Tool execution failed: Unknown tool: unknown_tool'')]]),
                                (''isError'', JBool True)]),
             (''id'', JNum 1)]"
proof -
  let ?req = "post_to ''c-1'' [] (tools_call_1 ''unknown_tool'' no_args)"
  let ?p = "\<lparr>name = Some ''unknown_tool'', arguments = Some no_args\<rparr>"
  have conn: "get_connection live0 (query_sessionId ?req) = Some 0"
    by (simp add: get_connection_def live0_eq post_to_def)
  have call: "msg_method (body ?req) = Some ''tools/call''"
    by (simp add: post_to_def tools_call_1_def)
  have par: "params (body ?req) = Some ?p"
    by (simp add: post_to_def tools_call_1_def)
  have unk: "''unknown_tool'' \<notin> set tool_names"
    by (simp add: tool_names_def)
  from tool_failure_is_result[OF conn call par, of env0] unk
  show ?thesis using conn by (simp add: post_to_def tools_call_1_def)
qed

lemma get_connection_sessions [simp]:
  "get_connection (st\<lparr>sessions := ss\<rparr>) c = get_connection st c"
  by (simp add: get_connection_def split: option.splits)

text \<open>
  C3, for a tool that returns. The result of a \<^verbatim>\<open>tools/call\<close> whose tool returns is
  written to the connection's stream when the registry has the connection, the stream has
  not ended and the write does not throw, and the POST is then answered with
  \<^verbatim>\<open>{ acknowledged: true }\<close>, which is not the JSON-RPC reply. When the write throws, or the
  stream has ended or the connection is missing (no write is tried then), the POST is
  answered with the full JSON-RPC reply and the stream receives nothing.
\<close>

theorem tool_result_delivery:
  assumes ok: "execute_tool e (name p) (arguments p) (sessions st) = (Inr result, ss')"
  shows "(\<forall>h. get_connection st (query_sessionId req) = Some h
              \<and> \<not> writableEnded (streams st h) \<and> write_error (streams st h) = None \<longrightarrow>
            fst (tools_call e req p st) = Response 200 (Json (JObj [(''acknowledged'', JBool True)]))
            \<and> frames (streams (snd (tools_call e req p st)) h) =
                frames (streams st h) @ [Message_event (rpc_result result (msg_id (body req)))])
       \<and> (\<forall>h. get_connection st (query_sessionId req) = Some h
              \<and> (writableEnded (streams st h) \<or> write_error (streams st h) \<noteq> None) \<longrightarrow>
            fst (tools_call e req p st) = Response 200 (Json (rpc_result result (msg_id (body req))))
            \<and> frames (streams (snd (tools_call e req p st)) h) = frames (streams st h))
       \<and> (get_connection st (query_sessionId req) = None
            \<or> (\<exists>h. get_connection st (query_sessionId req) = Some h \<and> writableEnded (streams st h)) \<longrightarrow>
            tools_call e req p st =
              (Response 200 (Json (rpc_result result (msg_id (body req)))), st\<lparr>sessions := ss'\<rparr>))
       \<and> rpc_result result (msg_id (body req)) \<noteq> JObj [(''acknowledged'', JBool True)]
       \<and> (get_connection st (query_sessionId req) \<noteq> None
            \<and> msg_method (body req) = Some ''tools/call'' \<and> params (body req) = Some p \<longrightarrow>
            post_message e req st = tools_call e req p st)"
proof (intro conjI allI impI)
  fix h
  assume "get_connection st (query_sessionId req) = Some h
              \<and> \<not> writableEnded (streams st h) \<and> write_error (streams st h) = None"
  then show "fst (tools_call e req p st) = Response 200 (Json (JObj [(''acknowledged'', JBool True)]))"
    and "frames (streams (snd (tools_call e req p st)) h) =
                frames (streams st h) @ [Message_event (rpc_result result (msg_id (body req)))]"
    using ok by (simp_all add: tools_call_def res_write_def Let_def)
next
  fix h
  assume "get_connection st (query_sessionId req) = Some h
              \<and> (writableEnded (streams st h) \<or> write_error (streams st h) \<noteq> None)"
  then show "fst (tools_call e req p st) = Response 200 (Json (rpc_result result (msg_id (body req))))"
    and "frames (streams (snd (tools_call e req p st)) h) = frames (streams st h)"
    using ok by (auto simp: tools_call_def res_write_def Let_def)
next
  assume "get_connection st (query_sessionId req) = None
            \<or> (\<exists>h. get_connection st (query_sessionId req) = Some h \<and> writableEnded (streams st h))"
  then show "tools_call e req p st =
              (Response 200 (Json (rpc_result result (msg_id (body req)))), st\<lparr>sessions := ss'\<rparr>)"
    using ok by (auto simp: tools_call_def Let_def)
next
  show "rpc_result result (msg_id (body req)) \<noteq> JObj [(''acknowledged'', JBool True)]"
    by (simp add: rpc_result_def)
next
  assume "get_connection st (query_sessionId req) \<noteq> None
            \<and> msg_method (body req) = Some ''tools/call'' \<and> params (body req) = Some p"
  then show "post_message e req st = tools_call e req p st"
    by (auto simp: post_tools_call)
qed

theorem tool_result_delivery_witness:
  "execute_tool env1 (Some ''create_session'') (Some no_args) (sessions live0) =
     (Inr (text_result (JObj [(''sessionId'', JStr ''s-1''),
                              (''message'', JStr ''Session created successfully'')])),
      [(''s-1'', \<lparr>docs = [], history = []\<rparr>)])
   \<and> get_connection live0 (Some ''c-1'') = Some 0
   \<and> \<not> writableEnded (streams live0 0) \<and> write_error (streams live0 0) = None
   \<and> fst (post_message env1 (post_to ''c-1'' [] (tools_call_1 ''create_session'' no_args)) live0) =
       Response 200 (Json (JObj [(''acknowledged'', JBool True)]))
   \<and> frames (streams (snd (post_message env1 (post_to ''c-1'' [] (tools_call_1 ''create_session'' no_args)) live0)) 0) =
       [Endpoint_event ''/mcp/message?sessionId=c-1'',
        Message_event (JObj [(''jsonrpc'', JStr ''2.0''),
          (''result'', text_result (JObj [(''sessionId'', JStr ''s-1''),
                              (''message'', JStr ''Session created successfully'')])),
          (''id'', JNum 1)])]"
proof -
  let ?req = "post_to ''c-1'' [] (tools_call_1 ''create_session'' no_args)"
  let ?p = "\<lparr>name = Some ''create_session'', arguments = Some no_args\<rparr>"
  let ?r = "text_result (JObj [(''sessionId'', JStr ''s-1''),
                              (''message'', JStr ''Session created successfully'')])"
  have ok: "execute_tool env1 (name ?p) (arguments ?p) (sessions live0) =
     (Inr ?r, [(''s-1'', \<lparr>docs = [], history = []\<rparr>)])"
    by (simp add: execute_tool_def create_session_def env1_def live0_eq)
  have conn: "get_connection live0 (Some ''c-1'') = Some 0"
    by (simp add: get_connection_def live0_eq)
  have q: "query_sessionId ?req = Some ''c-1''" "msg_method (body ?req) = Some ''tools/call''"
    "params (body ?req) = Some ?p" "msg_id (body ?req) = JNum 1"
    by (simp_all add: post_to_def tools_call_1_def)
  have w: "\<not> writableEnded (streams live0 0)" "write_error (streams live0 0) = None"
    "frames (streams live0 0) = [Endpoint_event ''/mcp/message?sessionId=c-1'']"
    by (simp_all add: live0_eq)
  from tool_result_delivery[OF ok, of ?req] conn q w ok
  show ?thesis by (simp add: rpc_result_def)
qed

text \<open>
  C3 as it is stated covers the result of a tool that throws as well. That result is
  answered on the POST alone: here the stream is registered and writable, and the unknown
  tool's result comes back inline in full while the state, the stream included, is unchanged.
\<close>

theorem tool_result_delivery_counterexample:
  "get_connection live0 (Some ''c-1'') = Some 0
   \<and> \<not> writableEnded (streams live0 0) \<and> write_error (streams live0 0) = None
   \<and> post_message env0 (post_to ''c-1'' [] (tools_call_1 ''unknown_tool'' no_args)) live0 =
       (Response 200 (Json (JObj [(''jsonrpc'', JStr ''2.0''),
             (''result'', JObj [(''content'', JArr [JObj [(''type'', JStr ''text''),
                  (''text'', JStr ''Tool execution failed: Unknown tool: unknown_tool'')]]),
                                (''isError'', JBool True)]),
             (''id'', JNum 1)])), live0)"
  by (simp add: live0_eq post_message_def handle_message_def tools_call_def execute_tool_def
      get_connection_def post_to_def tools_call_1_def template_def wantsSSE_def acceptHeader_def
      includes_str_def rpc_result_def tool_error_result_def Let_def)

lemma res_write_fields [simp]:
  "mcpConnections (snd (res_write h f st)) = mcpConnections st"
  "intervals (snd (res_write h f st)) = intervals st"
  "listeners (snd (res_write h f st)) = listeners st"
  "sessions (snd (res_write h f st)) = sessions st"
  "h' \<noteq> h \<Longrightarrow> streams (snd (res_write h f st)) h' = streams st h'"
  by (simp_all add: res_write_def Let_def split: option.splits)

lemma tools_call_fields:
  "mcpConnections (snd (tools_call e req p st)) = mcpConnections st"
  "intervals (snd (tools_call e req p st)) = intervals st"
  "listeners (snd (tools_call e req p st)) = listeners st"
  by (auto simp: tools_call_def Let_def res_write_def get_connection_def
           split: prod.splits sum.splits option.splits)

lemma tools_call_streams:
  assumes "\<forall>c. map_of (mcpConnections st) c \<noteq> Some h"
  shows "streams (snd (tools_call e req p st)) h = streams st h"
  using assms
  by (auto simp: tools_call_def Let_def res_write_def get_connection_def
           split: prod.splits sum.splits option.splits)

lemma handle_message_fields:
  "mcpConnections (snd (handle_message e req h st)) = mcpConnections st"
  "intervals (snd (handle_message e req h st)) = intervals st"
  "listeners (snd (handle_message e req h st)) = listeners st"
  by (auto simp: handle_message_def push_and_reply_def method_not_found_def tools_call_fields
           Let_def res_write_def split_def split: option.splits)

lemma handle_message_streams:
  assumes "\<forall>c. map_of (mcpConnections st) c \<noteq> Some h'" "h \<noteq> h'"
  shows "streams (snd (handle_message e req h st)) h' = streams st h'"
  using assms
  by (auto simp: handle_message_def push_and_reply_def method_not_found_def tools_call_streams
           Let_def res_write_def split_def split: option.splits)

lemma post_message_fields:
  "mcpConnections (snd (post_message e req st)) = mcpConnections st"
  "intervals (snd (post_message e req st)) = intervals st"
  "listeners (snd (post_message e req st)) = listeners st"
proof -
  have "mcpConnections (snd (post_message e req st)) = mcpConnections st
      \<and> intervals (snd (post_message e req st)) = intervals st
      \<and> listeners (snd (post_message e req st)) = listeners st"
  proof (cases "get_connection st (query_sessionId req)")
    case None
    then show ?thesis by (simp add: post_message_def)
  next
    case (Some h)
    obtain r st' where hm: "handle_message e req h st = (r, st')"
      by (cases "handle_message e req h st")
    with handle_message_fields[of e req h st]
    have "mcpConnections st' = mcpConnections st" "intervals st' = intervals st"
      "listeners st' = listeners st" by simp_all
    with Some hm show ?thesis
      by (simp add: post_message_def split: sum.splits)
  qed
  then show "mcpConnections (snd (post_message e req st)) = mcpConnections st"
    "intervals (snd (post_message e req st)) = intervals st"
    "listeners (snd (post_message e req st)) = listeners st" by simp_all
qed

lemma post_message_streams:
  assumes "\<forall>c. map_of (mcpConnections st) c \<noteq> Some h'"
  shows "streams (snd (post_message e req st)) h' = streams st h'"
proof (cases "get_connection st (query_sessionId req)")
  case None
  then show ?thesis by (simp add: post_message_def)
next
  case (Some h)
  then have "h \<noteq> h'" using assms
    by (auto simp: get_connection_def split: option.splits)
  obtain r st' where hm: "handle_message e req h st = (r, st')"
    by (cases "handle_message e req h st")
  with handle_message_streams[OF assms \<open>h \<noteq> h'\<close>, of e req]
  have "streams st' h' = streams st h'" by simp
  with Some hm show ?thesis
    by (simp add: post_message_def split: sum.splits)
qed

lemma keepAlive_fields:
  "mcpConnections (keepAlive h st) = mcpConnections st"
  "listeners (keepAlive h st) = listeners st"
  "intervals (keepAlive h st) \<subseteq> intervals st"
  "h' \<noteq> h \<Longrightarrow> streams (keepAlive h st) h' = streams st h'"
  by (auto simp: keepAlive_def res_write_def Let_def split: option.splits)

lemma map_of_delete_Some:
  "map_of (AList.delete k xs) c = Some v \<Longrightarrow> c \<noteq> k \<and> map_of xs c = Some v"
  by (auto simp: AList.delete_conv split: if_splits)

lemma map_of_update_Some:
  "map_of (AList.update k v' xs) c = Some v \<Longrightarrow> (c = k \<and> v = v') \<or> (c \<noteq> k \<and> map_of xs c = Some v)"
  by (auto simp: AList.update_conv split: if_splits)

lemma consistent_step:
  assumes inv: "consistent st H"
      and fresh: "\<And>e h. ev = Sse_open e h \<Longrightarrow> h \<notin> H"
  shows "consistent (step st ev) (H \<union> set (opens [ev]))"
proof (cases ev)
  case (Sse_open e h)
  with fresh have hH: "h \<notin> H" by simp
  from inv hH have nol: "listeners st h = None" by (auto simp: consistent_def)
  show ?thesis
    using inv nol unfolding Sse_open consistent_def
    by (auto simp: mcp_sse_def res_write_def Let_def
             dest!: map_of_update_Some split: option.splits if_splits)
next
  case (Close h)
  show ?thesis
    using inv unfolding Close consistent_def
    by (auto simp: on_close_def dest!: map_of_delete_Some split: option.splits)
next
  case (Error h)
  show ?thesis
    using inv unfolding Error consistent_def
    by (auto simp: on_error_def dest!: map_of_delete_Some split: option.splits)
next
  case (Timer h)
  have "consistent (keepAlive h st) H"
    using inv keepAlive_fields(3)[of h st] unfolding consistent_def
    by (simp add: keepAlive_fields(1,2)) blast
  with inv show ?thesis
    unfolding Timer by (simp add: timer_fire_def)
next
  case (Post e req)
  show ?thesis
    using inv unfolding Post consistent_def
    by (simp add: post_message_fields)
qed

lemma consistent_run:
  assumes "consistent st H" "distinct (opens evs)" "set (opens evs) \<inter> H = {}"
  shows "consistent (run st evs) (H \<union> set (opens evs))"
  using assms
proof (induction evs arbitrary: st H)
  case Nil
  then show ?case by (simp add: run_def)
next
  case (Cons ev evs)
  have fresh: "\<And>e h. ev = Sse_open e h \<Longrightarrow> h \<notin> H"
    using Cons.prems(3) by auto
  from consistent_step[OF Cons.prems(1) fresh]
  have c1: "consistent (step st ev) (H \<union> set (opens [ev]))" by simp
  have d: "distinct (opens evs)" using Cons.prems(2) by (cases ev) auto
  have i: "set (opens evs) \<inter> (H \<union> set (opens [ev])) = {}"
    using Cons.prems(2,3) by (cases ev) auto
  from Cons.IH[OF c1 d i]
  have "consistent (run (step st ev) evs) (H \<union> set (opens [ev]) \<union> set (opens evs))" .
  moreover have "H \<union> set (opens [ev]) \<union> set (opens evs) = H \<union> set (opens (ev # evs))"
    by (cases ev) auto
  ultimately show ?case by (simp add: run_def)
qed

lemma initial_consistent: "initial st \<Longrightarrow> consistent st {}"
  by (simp add: initial_def consistent_def)

lemma dead_after_close:
  assumes "consistent st H"
  shows "dead (on_close h st) h" and "dead (on_error h st) h"
  using assms unfolding consistent_def dead_def
  by (auto simp: on_close_def on_error_def dest!: map_of_delete_Some split: option.splits)

lemma dead_step:
  assumes d: "dead st h" and no: "\<And>e. ev \<noteq> Sse_open e h"
  shows "dead (step st ev) h \<and> streams (step st ev) h = streams st h"
proof (cases ev)
  case (Sse_open e h')
  with no have ne: "h' \<noteq> h" by auto
  show ?thesis
    using d ne unfolding Sse_open dead_def
    by (auto simp: mcp_sse_def res_write_def Let_def
             dest!: map_of_update_Some split: option.splits if_splits)
next
  case (Close h')
  show ?thesis
    using d unfolding Close dead_def
    by (auto simp: on_close_def dest!: map_of_delete_Some split: option.splits)
next
  case (Error h')
  show ?thesis
    using d unfolding Error dead_def
    by (auto simp: on_error_def dest!: map_of_delete_Some split: option.splits)
next
  case (Timer h')
  show ?thesis
  proof (cases "h' = h")
    case True
    with d show ?thesis unfolding Timer dead_def by (simp add: timer_fire_def)
  next
    case False
    have "h \<notin> intervals (keepAlive h' st)"
      using d keepAlive_fields(3)[of h' st] by (auto simp: dead_def)
    with d False show ?thesis unfolding Timer dead_def
      by (simp add: timer_fire_def keepAlive_fields(1,2,4))
  qed
next
  case (Post e req)
  from d have nr: "\<forall>c. map_of (mcpConnections st) c \<noteq> Some h" by (simp add: dead_def)
  show ?thesis
    using d post_message_streams[OF nr] unfolding Post dead_def
    by (simp add: post_message_fields)
qed

lemma dead_run:
  assumes "dead st h" "h \<notin> set (opens evs)"
  shows "dead (run st evs) h \<and> streams (run st evs) h = streams st h"
  using assms
proof (induction evs arbitrary: st)
  case Nil
  then show ?case by (simp add: run_def)
next
  case (Cons ev evs)
  have no: "\<And>e. ev \<noteq> Sse_open e h" using Cons.prems(2) by auto
  from dead_step[OF Cons.prems(1) no]
  have s: "dead (step st ev) h" "streams (step st ev) h = streams st h" by simp_all
  have "h \<notin> set (opens evs)" using Cons.prems(2) by (cases ev) auto
  from Cons.IH[OF s(1) this] s(2) show ?case by (simp add: run_def)
qed

text \<open>
  C4, by the mechanism the code has. From a server without connections, in a run where
  each response is opened once, once the close or error listener of a response has run
  nothing calls \<^verbatim>\<open>write\<close> on that response again: its stream stays as the listener left it,
  its timer is no longer scheduled and no registry entry holds it, whatever events follow.
  The listeners cancel the timer and delete the entry; a POST finds its stream through the
  registry only.
\<close>

theorem no_write_after_removal:
  assumes init: "initial st0"
      and once: "distinct (opens evs1)"
      and ev: "ev = Close h \<or> ev = Error h"
      and later: "h \<notin> set (opens evs2)"
  shows "streams (run st0 (evs1 @ ev # evs2)) h = streams (run st0 (evs1 @ [ev])) h
       \<and> h \<notin> intervals (run st0 (evs1 @ ev # evs2))
       \<and> (\<forall>c. map_of (mcpConnections (run st0 (evs1 @ ev # evs2))) c \<noteq> Some h)"
proof -
  let ?st = "run st0 evs1"
  from consistent_run[OF initial_consistent[OF init] once]
  have c: "consistent ?st ({} \<union> set (opens evs1))" by simp
  have d: "dead (step ?st ev) h"
    using ev dead_after_close[OF c, of h] by auto
  from dead_run[OF d later]
  have "dead (run (step ?st ev) evs2) h" "streams (run (step ?st ev) evs2) h = streams (step ?st ev) h"
    by simp_all
  moreover have "run st0 (evs1 @ ev # evs2) = run (step ?st ev) evs2"
    by (simp add: run_def)
  moreover have "run st0 (evs1 @ [ev]) = step ?st ev"
    by (simp add: run_def)
  ultimately show ?thesis by (simp add: dead_def)
qed


lemma live0_closed:
  "run server0 [Sse_open env0 0, Close 0] =
     \<lparr>mcpConnections = [], sessions = [],
      streams = (\<lambda>h. stream0)(0 := \<lparr>frames = [Endpoint_event ''/mcp/message?sessionId=c-1''],
                                    attempts = 1, writableEnded = False, write_error = None\<rparr>),
      intervals = {}, listeners = [0 \<mapsto> ''c-1'']\<rparr>"
  using live0_eq by (simp add: run_def live0_def on_close_def)

theorem no_write_after_removal_witness:
  "initial server0
   \<and> distinct (opens [Sse_open env0 0])
   \<and> 0 \<notin> set (opens [Timer 0, Post env0 (post_to ''c-1'' [] initialize_1)])
   \<and> attempts (streams (run server0
        [Sse_open env0 0, Close 0, Timer 0, Post env0 (post_to ''c-1'' [] initialize_1)]) 0) = 1
   \<and> frames (streams (run server0
        [Sse_open env0 0, Close 0, Timer 0, Post env0 (post_to ''c-1'' [] initialize_1)]) 0) =
       [Endpoint_event ''/mcp/message?sessionId=c-1'']"
proof -
  have i: "initial server0" by (simp add: initial_def server0_def)
  have d: "distinct (opens [Sse_open env0 0])" by simp
  have l: "0 \<notin> set (opens [Timer 0, Post env0 (post_to ''c-1'' [] initialize_1)])" by simp
  from no_write_after_removal[OF i d _ l, of "Close 0"] i
  show ?thesis by (simp add: live0_closed)
qed

text \<open>
  C4 as it is stated also says that every writer checks liveness before it writes. The
  keep-alive callback and the \<^verbatim>\<open>initialize\<close> branch do not: on a stream that has ended each
  of them calls \<^verbatim>\<open>write\<close> once more.
\<close>

theorem no_write_after_removal_counterexample:
  "writableEnded (streams (ended live0 0) 0)
   \<and> 0 \<in> intervals (ended live0 0)
   \<and> attempts (streams (ended live0 0) 0) = 1
   \<and> attempts (streams (timer_fire 0 (ended live0 0)) 0) = 2
   \<and> attempts (streams (snd (post_message env0 (post_to ''c-1'' [] initialize_1) (ended live0 0))) 0) = 2"
  by (simp add: live0_eq ended_def timer_fire_def keepAlive_def res_write_def post_message_def
      handle_message_def push_and_reply_def get_connection_def post_to_def initialize_1_def Let_def)

text \<open>
  C5, as the code reacts. When the stream rejects a write, the keep-alive callback cancels
  its timer and leaves the registry as it is, and \<^verbatim>\<open>tools/call\<close> answers the POST with the
  full reply and changes neither the timers nor the registry. The entry is deleted, and the
  timer cancelled with it, by the close and error listeners of the response.
\<close>

theorem write_failure_effects:
  assumes fail: "write_error (streams st h) = Some err"
  shows "intervals (keepAlive h st) = intervals st - {h}
       \<and> mcpConnections (keepAlive h st) = mcpConnections st
       \<and> (\<forall>e req p result ss'.
            execute_tool e (name p) (arguments p) (sessions st) = (Inr result, ss')
            \<and> get_connection st (query_sessionId req) = Some h
            \<and> \<not> writableEnded (streams st h) \<longrightarrow>
            tools_call e req p st =
              (Response 200 (Json (rpc_result result (msg_id (body req)))),
               st\<lparr>sessions := ss',
                  streams := (streams st)(h := (streams st h)\<lparr>attempts := attempts (streams st h) + 1\<rparr>)\<rparr>))
       \<and> (\<forall>c. listeners st h = Some c \<longrightarrow>
            on_close h st = st\<lparr>intervals := intervals st - {h},
                               mcpConnections := AList.delete c (mcpConnections st)\<rparr>
            \<and> on_error h st = on_close h st
            \<and> map_of (mcpConnections (on_close h st)) c = None)"
proof (intro conjI allI impI)
  show "intervals (keepAlive h st) = intervals st - {h}"
    using fail by (simp add: keepAlive_def res_write_def Let_def)
next
  show "mcpConnections (keepAlive h st) = mcpConnections st"
    by (rule keepAlive_fields(1))
next
  fix e :: env and req :: request and p :: params and result ss'
  assume "execute_tool e (name p) (arguments p) (sessions st) = (Inr result, ss')
            \<and> get_connection st (query_sessionId req) = Some h
            \<and> \<not> writableEnded (streams st h)"
  then show "tools_call e req p st =
              (Response 200 (Json (rpc_result result (msg_id (body req)))),
               st\<lparr>sessions := ss',
                  streams := (streams st)(h := (streams st h)\<lparr>attempts := attempts (streams st h) + 1\<rparr>)\<rparr>)"
    using fail by (simp add: tools_call_def res_write_def Let_def)
next
  fix c
  assume c: "listeners st h = Some c"
  then show "on_close h st = st\<lparr>intervals := intervals st - {h},
                               mcpConnections := AList.delete c (mcpConnections st)\<rparr>"
    and "on_error h st = on_close h st"
    and "map_of (mcpConnections (on_close h st)) c = None"
    by (simp_all add: on_close_def on_error_def AList.delete_conv)
qed

theorem write_failure_effects_witness:
  "write_error (streams (failing live0 0 ''EPIPE'') 0) = Some ''EPIPE''
   \<and> intervals (failing live0 0 ''EPIPE'') = {0}
   \<and> intervals (keepAlive 0 (failing live0 0 ''EPIPE'')) = {}
   \<and> listeners (failing live0 0 ''EPIPE'') 0 = Some ''c-1''
   \<and> map_of (mcpConnections (on_close 0 (failing live0 0 ''EPIPE''))) ''c-1'' = None"
proof -
  have f: "write_error (streams (failing live0 0 ''EPIPE'') 0) = Some ''EPIPE''"
    by (simp add: failing_def)
  have i: "intervals (failing live0 0 ''EPIPE'') = {0}"
    and l: "listeners (failing live0 0 ''EPIPE'') 0 = Some ''c-1''"
    by (simp_all add: failing_def live0_eq)
  from write_failure_effects[OF f] f i l show ?thesis by (simp add: AList.delete_conv)
qed

text \<open>
  C5 as it is stated fails: after a keep-alive write that failed the connection is still
  registered, and after a \<^verbatim>\<open>tools/call\<close> whose stream write failed the timer is still
  scheduled and the connection still registered.
\<close>

theorem write_failure_effects_counterexample:
  "write_error (streams (failing live0 0 ''EPIPE'') 0) = Some ''EPIPE''
   \<and> attempts (streams (timer_fire 0 (failing live0 0 ''EPIPE'')) 0) = 2
   \<and> map_of (mcpConnections (timer_fire 0 (failing live0 0 ''EPIPE''))) ''c-1'' = Some 0
   \<and> fst (post_message env1 (post_to ''c-1'' [] (tools_call_1 ''create_session'' no_args))
            (failing live0 0 ''EPIPE'')) =
       Response 200 (Json (rpc_result (text_result (JObj [(''sessionId'', JStr ''s-1''),
                              (''message'', JStr ''Session created successfully'')])) (JNum 1)))
   \<and> 0 \<in> intervals (snd (post_message env1 (post_to ''c-1'' [] (tools_call_1 ''create_session'' no_args))
            (failing live0 0 ''EPIPE'')))
   \<and> map_of (mcpConnections (snd (post_message env1
            (post_to ''c-1'' [] (tools_call_1 ''create_session'' no_args))
            (failing live0 0 ''EPIPE'')))) ''c-1'' = Some 0"
  by (simp add: live0_eq failing_def timer_fire_def keepAlive_def res_write_def post_message_def
      handle_message_def tools_call_def execute_tool_def create_session_def get_connection_def
      post_to_def tools_call_1_def env1_def Let_def)

lemma post_initialize:
  assumes "get_connection st (query_sessionId req) = Some h"
      and "msg_method (body req) = Some ''initialize''"
  shows "post_message e req st =
     (case push_and_reply (wantsSSE req) h (rpc_result initialize_result (msg_id (body req))) st of
        (Inr r, st') \<Rightarrow> (r, st')
      | (Inl err, st') \<Rightarrow> (Response 500 (Json (rpc_error (- 32603) err (msg_id (body req)))), st'))"
  using assms by (simp add: post_message_def handle_message_def Let_def)

lemma post_tools_list:
  assumes "get_connection st (query_sessionId req) = Some h"
      and "msg_method (body req) = Some ''tools/list''"
      and "createMCPServer_error e = None"
  shows "post_message e req st =
     (case push_and_reply (wantsSSE req) h (rpc_result (JObj [(''tools'', tools)]) (msg_id (body req))) st of
        (Inr r, st') \<Rightarrow> (r, st')
      | (Inl err, st') \<Rightarrow> (Response 500 (Json (rpc_error (- 32603) err (msg_id (body req)))), st'))"
  using assms by (simp add: post_message_def handle_message_def Let_def)

lemma push_and_reply_ok:
  assumes "write_error (streams st h) = None"
  shows "push_and_reply sse h response st =
     (Inr (if sse then Response 202 Empty else Response 200 (Json response)),
      st\<lparr>streams := (streams st)(h := (streams st h)\<lparr>attempts := attempts (streams st h) + 1,
            frames := frames (streams st h) @ [Message_event response]\<rparr>)\<rparr>)"
  using assms by (simp add: push_and_reply_def res_write_def Let_def)

lemma push_and_reply_throws:
  assumes "write_error (streams st h) = Some err"
  shows "push_and_reply sse h response st =
     (Inl err, st\<lparr>streams := (streams st)(h := (streams st h)\<lparr>attempts := attempts (streams st h) + 1\<rparr>)\<rparr>)"
  using assms by (simp add: push_and_reply_def res_write_def Let_def)

text \<open>
  C6, for a write that does not throw. The reply to \<^verbatim>\<open>initialize\<close> or \<^verbatim>\<open>tools/list\<close> on a
  registered connection is written to the connection's stream as a message event; the POST
  then gets the full reply when it did not accept \<^verbatim>\<open>text/event-stream\<close> and an empty 202
  when it did. When the write throws, the POST gets status 500 with the internal fault
  -32603 whatever it accepts, and the stream receives nothing. The \<^verbatim>\<open>initialize\<close> result
  has the protocol version, and the reply carries the request's id.
\<close>

theorem initialize_and_list_delivery:
  assumes conn: "get_connection st (query_sessionId req) = Some h"
      and meth: "response = rpc_result initialize_result (msg_id (body req))
                   \<and> msg_method (body req) = Some ''initialize''
                 \<or> response = rpc_result (JObj [(''tools'', tools)]) (msg_id (body req))
                   \<and> msg_method (body req) = Some ''tools/list'' \<and> createMCPServer_error e = None"
  shows "(write_error (streams st h) = None \<longrightarrow>
            fst (post_message e req st) =
              (if wantsSSE req then Response 202 Empty else Response 200 (Json response))
            \<and> frames (streams (snd (post_message e req st)) h) =
                frames (streams st h) @ [Message_event response])
       \<and> (\<forall>err. write_error (streams st h) = Some err \<longrightarrow>
            fst (post_message e req st) =
              Response 500 (Json (JObj [(''jsonrpc'', JStr ''2.0''),
                 (''error'', JObj [(''code'', JNum (- 32603)), (''message'', JStr err)]),
                 (''id'', msg_id (body req))]))
            \<and> frames (streams (snd (post_message e req st)) h) = frames (streams st h))
       \<and> field ''protocolVersion'' (field ''result'' (rpc_result initialize_result (msg_id (body req))))
            = JStr ''2024-11-05''
       \<and> field ''id'' response = msg_id (body req)"
proof -
  have eq: "post_message e req st =
     (case push_and_reply (wantsSSE req) h response st of
        (Inr r, st') \<Rightarrow> (r, st')
      | (Inl err, st') \<Rightarrow> (Response 500 (Json (rpc_error (- 32603) err (msg_id (body req)))), st'))"
    using meth post_initialize[OF conn, of e] post_tools_list[OF conn, of e] by auto
  have ok: "write_error (streams st h) = None \<longrightarrow>
            fst (post_message e req st) =
              (if wantsSSE req then Response 202 Empty else Response 200 (Json response))
            \<and> frames (streams (snd (post_message e req st)) h) =
                frames (streams st h) @ [Message_event response]"
    by (simp add: eq push_and_reply_ok)
  have bad: "\<forall>err. write_error (streams st h) = Some err \<longrightarrow>
            fst (post_message e req st) =
              Response 500 (Json (JObj [(''jsonrpc'', JStr ''2.0''),
                 (''error'', JObj [(''code'', JNum (- 32603)), (''message'', JStr err)]),
                 (''id'', msg_id (body req))]))
            \<and> frames (streams (snd (post_message e req st)) h) = frames (streams st h)"
    by (simp add: eq push_and_reply_throws rpc_error_def)
  have pv: "field ''protocolVersion'' (field ''result'' (rpc_result initialize_result (msg_id (body req))))
            = JStr ''2024-11-05''"
    by (simp add: rpc_result_def initialize_result_def)
  have idf: "field ''id'' response = msg_id (body req)"
    using meth by (auto simp: rpc_result_def)
  from ok bad pv idf show ?thesis by blast
qed

theorem initialize_and_list_delivery_witness:
  "get_connection live0 (query_sessionId (post_to ''c-1'' [] initialize_1)) = Some 0
   \<and> msg_method (body (post_to ''c-1'' [] initialize_1)) = Some ''initialize''
   \<and> write_error (streams live0 0) = None
   \<and> fst (post_message env0 (post_to ''c-1'' [] initialize_1) live0) =
       Response 200 (Json (rpc_result initialize_result (JNum 1)))
   \<and> frames (streams (snd (post_message env0 (post_to ''c-1'' [] initialize_1) live0)) 0) =
       [Endpoint_event ''/mcp/message?sessionId=c-1'',
        Message_event (rpc_result initialize_result (JNum 1))]"
proof -
  let ?req = "post_to ''c-1'' [] initialize_1"
  have conn: "get_connection live0 (query_sessionId ?req) = Some 0"
    by (simp add: get_connection_def live0_eq post_to_def)
  have m: "msg_method (body ?req) = Some ''initialize''" "msg_id (body ?req) = JNum 1"
    by (simp_all add: post_to_def initialize_1_def)
  have w: "write_error (streams live0 0) = None"
    "frames (streams live0 0) = [Endpoint_event ''/mcp/message?sessionId=c-1'']"
    by (simp_all add: live0_eq)
  have s: "\<not> wantsSSE ?req"
    by (simp add: wantsSSE_def acceptHeader_def post_to_def includes_str_def)
  from initialize_and_list_delivery[OF conn, of "rpc_result initialize_result (JNum 1)" env0] m w s conn
  show ?thesis by simp
qed

text \<open>
  C6 as it is stated fails when the stream rejects the write: the client that accepts
  \<^verbatim>\<open>text/event-stream\<close> receives the fault inline with status 500 instead of a 202, and
  the fault is not on the stream.
\<close>

theorem initialize_and_list_delivery_counterexample:
  "get_connection (failing live0 0 ''EPIPE'') (Some ''c-1'') = Some 0
   \<and> wantsSSE (post_to ''c-1'' ''text/event-stream'' initialize_1)
   \<and> fst (post_message env0 (post_to ''c-1'' ''text/event-stream'' initialize_1) (failing live0 0 ''EPIPE'')) =
       Response 500 (Json (JObj [(''jsonrpc'', JStr ''2.0''),
                 (''error'', JObj [(''code'', JNum (- 32603)), (''message'', JStr ''EPIPE'')]),
                 (''id'', JNum 1)]))
   \<and> frames (streams (snd (post_message env0 (post_to ''c-1'' ''text/event-stream'' initialize_1)
                 (failing live0 0 ''EPIPE''))) 0) = [Endpoint_event ''/mcp/message?sessionId=c-1'']"
proof -
  have s: "wantsSSE (post_to ''c-1'' ''text/event-stream'' initialize_1)"
    by (simp add: wantsSSE_def acceptHeader_def post_to_def includes_str_def)
  show ?thesis using s
    by (simp add: live0_eq failing_def post_message_def handle_message_def push_and_reply_def
        res_write_def get_connection_def post_to_def initialize_1_def rpc_error_def Let_def)
qed

lemma post_unknown_method:
  assumes "get_connection st (query_sessionId req) = Some h"
      and "msg_method (body req) \<noteq> Some ''initialize''"
      and "msg_method (body req) \<noteq> Some ''tools/list''"
      and "msg_method (body req) \<noteq> Some ''tools/call''"
  shows "post_message e req st =
     (case method_not_found req h st of
        (Inr r, st') \<Rightarrow> (r, st')
      | (Inl err, st') \<Rightarrow> (Response 500 (Json (rpc_error (- 32603) err (msg_id (body req)))), st'))"
  using assms by (simp add: post_message_def handle_message_def Let_def)

lemma wantsSSE_jsonrpc [simp]:
  "wantsSSE (req\<lparr>body := (body req)\<lparr>jsonrpc := v\<rparr>\<rparr>) = wantsSSE req"
  by (simp add: wantsSSE_def acceptHeader_def)

lemma debugInfo_jsonrpc [simp]:
  "debugInfo st (req\<lparr>body := (body req)\<lparr>jsonrpc := v\<rparr>\<rparr>) = debugInfo st req"
  by (simp add: debugInfo_def acceptHeader_def)

lemma tools_call_jsonrpc [simp]:
  "tools_call e (req\<lparr>body := (body req)\<lparr>jsonrpc := v\<rparr>\<rparr>) p st = tools_call e req p st"
  by (simp add: tools_call_def Let_def split: prod.splits sum.splits option.splits)

lemma method_not_found_jsonrpc [simp]:
  "method_not_found (req\<lparr>body := (body req)\<lparr>jsonrpc := v\<rparr>\<rparr>) h st = method_not_found req h st"
  by (simp add: method_not_found_def Let_def split: prod.splits option.splits)

lemma handle_message_jsonrpc [simp]:
  "handle_message e (req\<lparr>body := (body req)\<lparr>jsonrpc := v\<rparr>\<rparr>) h st = handle_message e req h st"
  by (simp add: handle_message_def Let_def split: prod.splits option.splits)

text \<open>
  C7, as the handler behaves. The envelope's shape is not validated: the \<^verbatim>\<open>jsonrpc\<close> tag is
  never read, so the reply is the same whatever the tag is; an envelope without a method
  gets the method-not-found fault -32601, and a \<^verbatim>\<open>tools/call\<close> without params the internal
  fault -32603 with status 500. Each fault carries the id as it was supplied.
\<close>

theorem no_envelope_validation:
  shows "post_message e (req\<lparr>body := (body req)\<lparr>jsonrpc := v\<rparr>\<rparr>) st = post_message e req st
       \<and> (\<forall>h. get_connection st (query_sessionId req) = Some h
              \<and> msg_method (body req) = None \<and> wantsSSE req \<longrightarrow>
            post_message e req st =
              (Response 200 (Event_stream [Message_event (JObj [(''jsonrpc'', JStr ''2.0''),
                    (''error'', JObj [(''code'', JNum (- 32601)),
                       (''message'', JStr ''Method not found: undefined'')]),
                    (''id'', msg_id (body req))])]), st))
       \<and> (\<forall>h. get_connection st (query_sessionId req) = Some h
              \<and> msg_method (body req) = None \<and> \<not> wantsSSE req
              \<and> write_error (streams st h) = None \<longrightarrow>
            fst (post_message e req st) = Response 200 (Json (JObj [(''received'', JBool True)]))
            \<and> frames (streams (snd (post_message e req st)) h) =
                frames (streams st h) @ [Message_event (JObj [(''jsonrpc'', JStr ''2.0''),
                    (''error'', JObj [(''code'', JNum (- 32601)),
                       (''message'', JStr ''Method not found: undefined'')]),
                    (''id'', msg_id (body req))])])
       \<and> (\<forall>h. get_connection st (query_sessionId req) = Some h
              \<and> msg_method (body req) = Some ''tools/call'' \<and> params (body req) = None \<longrightarrow>
            (\<exists>m. post_message e req st =
              (Response 500 (Json (JObj [(''jsonrpc'', JStr ''2.0''),
                    (''error'', JObj [(''code'', JNum (- 32603)), (''message'', JStr m)]),
                    (''id'', msg_id (body req))])), st)))"
proof (intro conjI allI impI)
  show "post_message e (req\<lparr>body := (body req)\<lparr>jsonrpc := v\<rparr>\<rparr>) st = post_message e req st"
    by (simp add: post_message_def connection_not_found_def split: prod.splits option.splits sum.splits)
next
  fix h
  assume a: "get_connection st (query_sessionId req) = Some h
              \<and> msg_method (body req) = None \<and> wantsSSE req"
  then have "post_message e req st =
     (case method_not_found req h st of
        (Inr r, st') \<Rightarrow> (r, st')
      | (Inl err, st') \<Rightarrow> (Response 500 (Json (rpc_error (- 32603) err (msg_id (body req)))), st'))"
    by (intro post_unknown_method) auto
  with a show "post_message e req st =
              (Response 200 (Event_stream [Message_event (JObj [(''jsonrpc'', JStr ''2.0''),
                    (''error'', JObj [(''code'', JNum (- 32601)),
                       (''message'', JStr ''Method not found: undefined'')]),
                    (''id'', msg_id (body req))])]), st)"
    by (simp add: method_not_found_def rpc_error_def template_def)
next
  fix h
  assume a: "get_connection st (query_sessionId req) = Some h
              \<and> msg_method (body req) = None \<and> \<not> wantsSSE req
              \<and> write_error (streams st h) = None"
  then have "post_message e req st =
     (case method_not_found req h st of
        (Inr r, st') \<Rightarrow> (r, st')
      | (Inl err, st') \<Rightarrow> (Response 500 (Json (rpc_error (- 32603) err (msg_id (body req)))), st'))"
    by (intro post_unknown_method) auto
  with a show "fst (post_message e req st) = Response 200 (Json (JObj [(''received'', JBool True)]))"
    and "frames (streams (snd (post_message e req st)) h) =
                frames (streams st h) @ [Message_event (JObj [(''jsonrpc'', JStr ''2.0''),
                    (''error'', JObj [(''code'', JNum (- 32601)),
                       (''message'', JStr ''Method not found: undefined'')]),
                    (''id'', msg_id (body req))])]"
    by (simp_all add: method_not_found_def res_write_def rpc_error_def template_def Let_def)
next
  fix h
  assume "get_connection st (query_sessionId req) = Some h
              \<and> msg_method (body req) = Some ''tools/call'' \<and> params (body req) = None"
  then show "\<exists>m. post_message e req st =
              (Response 500 (Json (JObj [(''jsonrpc'', JStr ''2.0''),
                    (''error'', JObj [(''code'', JNum (- 32603)), (''message'', JStr m)]),
                    (''id'', msg_id (body req))])), st)"
    by (simp add: post_message_def handle_message_def rpc_error_def Let_def)
qed

theorem no_envelope_validation_witness:
  "get_connection live0 (query_sessionId (post_to ''c-1'' ''text/event-stream'' (bare_1 None JUndefined None))) = Some 0
   \<and> msg_method (body (post_to ''c-1'' ''text/event-stream'' (bare_1 None JUndefined None))) = None
   \<and> wantsSSE (post_to ''c-1'' ''text/event-stream'' (bare_1 None JUndefined None))
   \<and> post_message env0 (post_to ''c-1'' ''text/event-stream'' (bare_1 None JUndefined None)) live0 =
       (Response 200 (Event_stream [Message_event (JObj [(''jsonrpc'', JStr ''2.0''),
                    (''error'', JObj [(''code'', JNum (- 32601)),
                       (''message'', JStr ''Method not found: undefined'')]),
                    (''id'', JUndefined)])]), live0)"
proof -
  let ?req = "post_to ''c-1'' ''text/event-stream'' (bare_1 None JUndefined None)"
  have conn: "get_connection live0 (query_sessionId ?req) = Some 0"
    by (simp add: get_connection_def live0_eq post_to_def)
  have v: "msg_method (body ?req) = None" "msg_id (body ?req) = JUndefined"
    by (simp_all add: post_to_def bare_1_def)
  have s: "wantsSSE ?req"
    by (simp add: wantsSSE_def acceptHeader_def post_to_def includes_str_def)
  from no_envelope_validation[where e = env0 and req = ?req and st = live0] v s conn
  show ?thesis by simp
qed

text \<open>
  C7 as it is stated fails: an \<^verbatim>\<open>initialize\<close> envelope without the \<^verbatim>\<open>jsonrpc\<close> tag is
  answered with the result, and the empty envelope is answered with the code of an unknown
  method and an undefined id, not null.
\<close>

theorem no_envelope_validation_counterexample:
  "fst (post_message env0 (post_to ''c-1'' [] (bare_1 None (JNum 7) (Some ''initialize''))) live0) =
     Response 200 (Json (JObj [(''jsonrpc'', JStr ''2.0''),
        (''result'', initialize_result), (''id'', JNum 7)]))
   \<and> post_message env0 (post_to ''c-1'' ''text/event-stream'' (bare_1 None JUndefined None)) live0 =
       (Response 200 (Event_stream [Message_event (JObj [(''jsonrpc'', JStr ''2.0''),
                    (''error'', JObj [(''code'', JNum (- 32601)),
                       (''message'', JStr ''Method not found: undefined'')]),
                    (''id'', JUndefined)])]), live0)"
proof -
  have s: "wantsSSE (post_to ''c-1'' ''text/event-stream'' (bare_1 None JUndefined None))"
    "\<not> wantsSSE (post_to ''c-1'' [] (bare_1 None (JNum 7) (Some ''initialize'')))"
    by (simp_all add: wantsSSE_def acceptHeader_def post_to_def includes_str_def)
  show ?thesis using s
    by (simp add: live0_eq post_message_def handle_message_def method_not_found_def
        push_and_reply_def res_write_def get_connection_def post_to_def bare_1_def
        rpc_error_def rpc_result_def template_def Let_def)
qed

text \<open>
  C8, as the handler delivers it. On a registered connection a method other than
  \<^verbatim>\<open>initialize\<close>, \<^verbatim>\<open>tools/list\<close> and \<^verbatim>\<open>tools/call\<close> yields the fault -32601 whose message
  ends with the method's name. A POST that accepts \<^verbatim>\<open>text/event-stream\<close> receives the
  fault as one message event in its own response and the connection's stream is left alone;
  any other POST receives \<^verbatim>\<open>{ received: true }\<close> while the fault is written to the
  connection's stream, and status 500 with the fault -32603 when that write throws.
\<close>

theorem unknown_method_fault:
  assumes conn: "get_connection st (query_sessionId req) = Some h"
      and meth: "msg_method (body req) \<notin> {Some ''initialize'', Some ''tools/list'', Some ''tools/call''}"
      and fault: "fault = JObj [(''jsonrpc'', JStr ''2.0''),
                    (''error'', JObj [(''code'', JNum (- 32601)),
                       (''message'', JStr (''Method not found: '' @ template (msg_method (body req))))]),
                    (''id'', msg_id (body req))]"
  shows "(wantsSSE req \<longrightarrow>
            post_message e req st = (Response 200 (Event_stream [Message_event fault]), st))
       \<and> (\<not> wantsSSE req \<and> write_error (streams st h) = None \<longrightarrow>
            fst (post_message e req st) = Response 200 (Json (JObj [(''received'', JBool True)]))
            \<and> frames (streams (snd (post_message e req st)) h) =
                frames (streams st h) @ [Message_event fault])
       \<and> (\<forall>err. \<not> wantsSSE req \<and> write_error (streams st h) = Some err \<longrightarrow>
            fst (post_message e req st) =
              Response 500 (Json (JObj [(''jsonrpc'', JStr ''2.0''),
                 (''error'', JObj [(''code'', JNum (- 32603)), (''message'', JStr err)]),
                 (''id'', msg_id (body req))]))
            \<and> frames (streams (snd (post_message e req st)) h) = frames (streams st h))"
proof -
  have eq: "post_message e req st =
     (case method_not_found req h st of
        (Inr r, st') \<Rightarrow> (r, st')
      | (Inl err, st') \<Rightarrow> (Response 500 (Json (rpc_error (- 32603) err (msg_id (body req)))), st'))"
    using meth by (intro post_unknown_method[OF conn]) auto
  show ?thesis
    unfolding eq fault
    by (auto simp: method_not_found_def res_write_def rpc_error_def Let_def)
qed

theorem unknown_method_fault_witness:
  "get_connection live0 (query_sessionId (post_to ''c-1'' [] (bare_1 (Some ''2.0'') (JNum 3) (Some ''resources/list'')))) = Some 0
   \<and> \<not> wantsSSE (post_to ''c-1'' [] (bare_1 (Some ''2.0'') (JNum 3) (Some ''resources/list'')))
   \<and> write_error (streams live0 0) = None
   \<and> fst (post_message env0 (post_to ''c-1'' [] (bare_1 (Some ''2.0'') (JNum 3) (Some ''resources/list''))) live0) =
       Response 200 (Json (JObj [(''received'', JBool True)]))
   \<and> frames (streams (snd (post_message env0 (post_to ''c-1'' [] (bare_1 (Some ''2.0'') (JNum 3) (Some ''resources/list''))) live0)) 0) =
       [Endpoint_event ''/mcp/message?sessionId=c-1'',
        Message_event (JObj [(''jsonrpc'', JStr ''2.0''),
                    (''error'', JObj [(''code'', JNum (- 32601)),
                       (''message'', JStr ''Method not found: resources/list'')]),
                    (''id'', JNum 3)])]"
proof -
  let ?req = "post_to ''c-1'' [] (bare_1 (Some ''2.0'') (JNum 3) (Some ''resources/list''))"
  have conn: "get_connection live0 (query_sessionId ?req) = Some 0"
    by (simp add: get_connection_def live0_eq post_to_def)
  have m: "msg_method (body ?req) \<notin> {Some ''initialize'', Some ''tools/list'', Some ''tools/call''}"
    by (simp add: post_to_def bare_1_def)
  have v: "msg_method (body ?req) = Some ''resources/list''" "msg_id (body ?req) = JNum 3"
    by (simp_all add: post_to_def bare_1_def)
  have w: "write_error (streams live0 0) = None"
    "frames (streams live0 0) = [Endpoint_event ''/mcp/message?sessionId=c-1'']"
    by (simp_all add: live0_eq)
  have s: "\<not> wantsSSE ?req"
    by (simp add: wantsSSE_def acceptHeader_def post_to_def includes_str_def)
  from unknown_method_fault[OF conn m refl, of env0] v w s conn
  show ?thesis by (simp add: template_def)
qed

text \<open>
  C8 as it is stated fails both ways: the POST that does not accept a stream is answered
  with \<^verbatim>\<open>{ received: true }\<close> and not with the fault, and for the POST that accepts one
  nothing is pushed onto the connection's stream (the state is unchanged).
\<close>

theorem unknown_method_fault_counterexample:
  "fst (post_message env0 (post_to ''c-1'' [] (bare_1 (Some ''2.0'') (JNum 3) (Some ''resources/list''))) live0) =
       Response 200 (Json (JObj [(''received'', JBool True)]))
   \<and> post_message env0 (post_to ''c-1'' ''text/event-stream'' (bare_1 (Some ''2.0'') (JNum 3) (Some ''resources/list''))) live0 =
       (Response 200 (Event_stream [Message_event (JObj [(''jsonrpc'', JStr ''2.0''),
                    (''error'', JObj [(''code'', JNum (- 32601)),
                       (''message'', JStr ''Method not found: resources/list'')]),
                    (''id'', JNum 3)])]), live0)"
proof -
  have s: "wantsSSE (post_to ''c-1'' ''text/event-stream'' (bare_1 (Some ''2.0'') (JNum 3) (Some ''resources/list'')))"
    "\<not> wantsSSE (post_to ''c-1'' [] (bare_1 (Some ''2.0'') (JNum 3) (Some ''resources/list'')))"
    by (simp_all add: wantsSSE_def acceptHeader_def post_to_def includes_str_def)
  show ?thesis using s
    by (simp add: live0_eq post_message_def handle_message_def method_not_found_def
        res_write_def get_connection_def post_to_def bare_1_def rpc_error_def template_def Let_def)
qed







lemma hello_store_eq:
  "hello_store = [(''s-1'', \<lparr>docs = [\<lparr>doc_id = ''d-1'', doc_title = Some ''greeting'',
                                        doc_text = Some ''hello world''\<rparr>], history = []\<rparr>)]"
  by (simp add: hello_store_def upload_document_def create_session_def
      sessions_get_def template_def no_args_def)

lemma lower_samples:
  "toLowerCase_latin1 ''world'' = ''world''"
  "toLowerCase_latin1 ''hello world'' = ''hello world''"
  "toLowerCase_latin1 ''greeting'' = ''greeting''"
  "toLowerCase_latin1 ''World'' = ''world''"
  "toLowerCase_latin1 digits60 = digits60"
  by (code_simp+)

lemma index_samples:
  "first_index ''hello world'' ''world'' = Some 6"
  "first_index digits60 ''world'' = None"
  "first_index ''world'' ''world'' = Some 0"
  by (code_simp+)

lemma snippet_samples:
  "snippet toLowerCase_latin1 ''hello world'' ''world'' = ''...hello world...''"
  "snippet toLowerCase_latin1 digits60 ''world'' =
     ''...0123456789012345678901234567890123456789012345678...''"
  by (code_simp+)

lemma env0_lower: "toLowerCase env0 = toLowerCase_latin1"
  by (simp add: env0_def)




text \<open>
  C10, for a key that is not empty and not inherited. A search whose \<^verbatim>\<open>sessionId\<close> is a
  non-empty string under which the store has nothing, own or inherited, returns a result
  with \<^verbatim>\<open>isError\<close> false, count 0 and no entries; \<^verbatim>\<open>list_documents\<close>, \<^verbatim>\<open>get_document\<close> and
  \<^verbatim>\<open>upload_document\<close> with the same arguments are answered with a result whose \<^verbatim>\<open>isError\<close>
  is true and whose text says that the session was not found.
\<close>

theorem search_unknown_session_is_empty:
  assumes sid: "arg_sessionId a = Some sid" "sid \<noteq> []"
      and q: "arg_query a = Some q"
      and absent: "sessions_get (sessions st) sid = Absent"
  shows "execute_tool e (Some ''search_documents'') (Some a) (sessions st) =
     (Inr (JObj [(''content'', JArr [JObj [(''type'', JStr ''text''), (''text'', JSerialized (JObj
        [(''query'', JStr q), (''resultCount'', JNum 0), (''results'', JArr [])]))]]),
          (''isError'', JBool False)]), sessions st)
     \<and> (\<forall>n. n = ''list_documents'' \<or> n = ''get_document'' \<longrightarrow>
           envelope (fst (tools_call e req \<lparr>name = Some n, arguments = Some a\<rparr> st)) =
             rpc_result (tool_error_result (''Session not found: '' @ sid)) (msg_id (body req)))
     \<and> envelope (fst (tools_call e req \<lparr>name = Some ''upload_document'', arguments = Some a\<rparr> st)) =
             rpc_result (tool_error_result ''Session not found'') (msg_id (body req))
     \<and> (\<forall>m. field ''isError'' (tool_error_result m) = JBool True)"
proof (intro conjI allI impI)
  have "search_documents (toLowerCase e) (Some a) (sessions st) =
     Inr (text_result (JObj [(''query'', JStr q), (''resultCount'', JNum 0), (''results'', JArr [])]))"
    using sid q absent
    by (simp add: search_documents_def sessionsToSearch_def)
  then show "execute_tool e (Some ''search_documents'') (Some a) (sessions st) =
     (Inr (JObj [(''content'', JArr [JObj [(''type'', JStr ''text''), (''text'', JSerialized (JObj
        [(''query'', JStr q), (''resultCount'', JNum 0), (''results'', JArr [])]))]]),
          (''isError'', JBool False)]), sessions st)"
    by (simp add: execute_tool_def text_result_def)
next
  fix n :: string
  assume n: "n = ''list_documents'' \<or> n = ''get_document''"
  let ?p = "\<lparr>name = Some n, arguments = Some a\<rparr>"
  have "fst (execute_tool e (name ?p) (arguments ?p) (sessions st)) =
          Inl (''Session not found: '' @ sid)"
    using n sid absent
    by (auto simp: execute_tool_def list_documents_def get_document_def template_def)
  from tools_call_failure[OF this]
  show "envelope (fst (tools_call e req ?p st)) =
             rpc_result (tool_error_result (''Session not found: '' @ sid)) (msg_id (body req))" .
next
  let ?p = "\<lparr>name = Some ''upload_document'', arguments = Some a\<rparr>"
  have "fst (execute_tool e (name ?p) (arguments ?p) (sessions st)) = Inl ''Session not found''"
    using sid absent
    by (simp add: execute_tool_def upload_document_def template_def)
  from tools_call_failure[OF this]
  show "envelope (fst (tools_call e req ?p st)) =
             rpc_result (tool_error_result ''Session not found'') (msg_id (body req))" .
next
  fix m
  show "field ''isError'' (tool_error_result m) = JBool True"
    by (simp add: tool_error_result_def)
qed

theorem search_unknown_session_is_empty_witness:
  "arg_sessionId (search_args (Some ''nope'') ''world'') = Some ''nope''
   \<and> sessions_get (sessions (live0\<lparr>sessions := hello_store\<rparr>)) ''nope'' = Absent
   \<and> execute_tool env0 (Some ''search_documents'') (Some (search_args (Some ''nope'') ''world'')) hello_store =
     (Inr (JObj [(''content'', JArr [JObj [(''type'', JStr ''text''), (''text'', JSerialized (JObj
        [(''query'', JStr ''world''), (''resultCount'', JNum 0), (''results'', JArr [])]))]]),
          (''isError'', JBool False)]), hello_store)
   \<and> envelope (fst (tools_call env0 (post_to ''c-1'' [] initialize_1)
        \<lparr>name = Some ''list_documents'', arguments = Some (search_args (Some ''nope'') ''world'')\<rparr>
        (live0\<lparr>sessions := hello_store\<rparr>))) =
       rpc_result (tool_error_result ''Session not found: nope'') (JNum 1)"
proof -
  let ?a = "search_args (Some ''nope'') ''world''"
  let ?st = "live0\<lparr>sessions := hello_store\<rparr>"
  have sid: "arg_sessionId ?a = Some ''nope''" "''nope'' \<noteq> []" and q: "arg_query ?a = Some ''world''"
    by (simp_all add: search_args_def no_args_def)
  have absent: "sessions_get (sessions ?st) ''nope'' = Absent"
    by (simp add: hello_store_eq sessions_get_def object_prototype_names_def)
  have i: "msg_id (body (post_to ''c-1'' [] initialize_1)) = JNum 1"
    by (simp add: post_to_def initialize_1_def)
  from search_unknown_session_is_empty[OF sid q absent, of env0 "post_to ''c-1'' [] initialize_1"]
    sid absent i
  show ?thesis by simp
qed

text \<open>
  C10 as it is stated fails for two identifiers that name no session: the empty string is
  falsy, so every session is searched and the document is found; \<^verbatim>\<open>constructor\<close> reads a
  member of the prototype, which is truthy and has no documents to iterate, so the tool throws.
\<close>

theorem search_unknown_session_is_empty_counterexample:
  "sessions_get hello_store [] = Absent
   \<and> execute_tool env0 (Some ''search_documents'') (Some (search_args (Some []) ''world'')) hello_store =
     (Inr (JObj [(''content'', JArr [JObj [(''type'', JStr ''text''), (''text'', JSerialized (JObj
        [(''query'', JStr ''world''),
         (''resultCount'', JNum 1),
         (''results'', JArr [JObj [(''sessionId'', JStr ''s-1''), (''docId'', JStr ''d-1''),
                                   (''title'', JStr ''greeting''),
                                   (''snippet'', JStr ''...hello world...'')]])]))]]),
          (''isError'', JBool False)]), hello_store)
   \<and> map_of hello_store ''constructor'' = None
   \<and> execute_tool env0 (Some ''search_documents'') (Some (search_args (Some ''constructor'') ''world'')) hello_store =
     (Inl ''session.docs is not iterable'', hello_store)"
  by (simp add: execute_tool_def search_documents_def search_args_def no_args_def
      sessionsToSearch_def sessions_get_def hello_store_eq search_doc_def search_result_def
      includes_str_def env0_lower lower_samples index_samples snippet_samples text_result_def
      js_of_def object_prototype_names_def)

end
